theory Spec2Isabelle
  imports
    Main
    "HOL-Library.Word"
    "HOL-Library.Char_ord"
    "HOL-Library.List_Lexorder"
    "HOL-Library.Multiset"
begin

unbundle bit_operations_syntax

section \<open>Feature store: cache keys (cache.py)\<close>

text \<open>
  A Python \<open>str\<close> is modelled by \<open>string\<close>, read as the UTF-8 bytes of the text.
  Byte-wise lexicographic order on UTF-8 is code point order, so \<open>sorted\<close> on
  Python strings is \<open>sort\<close> on \<open>string\<close> with the lexicographic order of
  \<open>List_Lexorder\<close> over the character codes of \<open>Char_ord\<close>, and
  \<open>key_str.encode()\<close> is the byte list itself.
\<close>

subsection \<open>hashlib.md5(...).hexdigest()\<close>

text \<open>
  The digest of RFC 1321 on 32-bit words: padding to a multiple of 64 bytes with the
  bit length in the last eight bytes, 64 rounds per block, little-endian throughout.
\<close>

type_synonym u32 = "32 word"
type_synonym byte = "8 word"
type_synonym md5_state = "u32 \<times> u32 \<times> u32 \<times> u32"

definition md5_shift :: "nat list" where
  "md5_shift =
     [7, 12, 17, 22, 7, 12, 17, 22, 7, 12, 17, 22, 7, 12, 17, 22,
      5, 9, 14, 20, 5, 9, 14, 20, 5, 9, 14, 20, 5, 9, 14, 20,
      4, 11, 16, 23, 4, 11, 16, 23, 4, 11, 16, 23, 4, 11, 16, 23,
      6, 10, 15, 21, 6, 10, 15, 21, 6, 10, 15, 21, 6, 10, 15, 21]"

definition md5_sine :: "u32 list" where
  "md5_sine =
     [0xd76aa478, 0xe8c7b756, 0x242070db, 0xc1bdceee,
      0xf57c0faf, 0x4787c62a, 0xa8304613, 0xfd469501,
      0x698098d8, 0x8b44f7af, 0xffff5bb1, 0x895cd7be,
      0x6b901122, 0xfd987193, 0xa679438e, 0x49b40821,
      0xf61e2562, 0xc040b340, 0x265e5a51, 0xe9b6c7aa,
      0xd62f105d, 0x02441453, 0xd8a1e681, 0xe7d3fbc8,
      0x21e1cde6, 0xc33707d6, 0xf4d50d87, 0x455a14ed,
      0xa9e3e905, 0xfcefa3f8, 0x676f02d9, 0x8d2a4c8a,
      0xfffa3942, 0x8771f681, 0x6d9d6122, 0xfde5380c,
      0xa4beea44, 0x4bdecfa9, 0xf6bb4b60, 0xbebfbc70,
      0x289b7ec6, 0xeaa127fa, 0xd4ef3085, 0x04881d05,
      0xd9d4d039, 0xe6db99e5, 0x1fa27cf8, 0xc4ac5665,
      0xf4292244, 0x432aff97, 0xab9423a7, 0xfc93a039,
      0x655b59c3, 0x8f0ccc92, 0xffeff47d, 0x85845dd1,
      0x6fa87e4f, 0xfe2ce6e0, 0xa3014314, 0x4e0811a1,
      0xf7537e82, 0xbd3af235, 0x2ad7d2bb, 0xeb86d391]"

definition rotate_left :: "u32 \<Rightarrow> nat \<Rightarrow> u32" where
  "rotate_left x n = push_bit n x OR drop_bit (32 - n) x"

fun md5_round :: "u32 list \<Rightarrow> nat \<Rightarrow> md5_state \<Rightarrow> md5_state" where
  "md5_round M i (A, B, C, D) =
     (let (F, g) =
            (if i < 16 then ((B AND C) OR (NOT B AND D), i)
             else if i < 32 then ((D AND B) OR (NOT D AND C), (5 * i + 1) mod 16)
             else if i < 48 then (B XOR C XOR D, (3 * i + 5) mod 16)
             else (C XOR (B OR NOT D), (7 * i) mod 16));
          F' = F + A + md5_sine ! i + M ! g
      in (D, B + rotate_left F' (md5_shift ! i), B, C))"

definition md5_block :: "u32 list \<Rightarrow> md5_state \<Rightarrow> md5_state" where
  "md5_block M st =
     (case (st, fold (md5_round M) [0..<64] st) of
        ((a0, b0, c0, d0), (A, B, C, D)) \<Rightarrow> (a0 + A, b0 + B, c0 + C, d0 + D))"

fun le_word :: "byte list \<Rightarrow> u32" where
  "le_word [] = 0"
| "le_word (b # bs) = ucast b OR push_bit 8 (le_word bs)"

fun chunks :: "nat \<Rightarrow> 'a list \<Rightarrow> 'a list list" where
  "chunks n [] = []"
| "chunks n xs = (if n = 0 then [xs] else take n xs # chunks n (drop n xs))"

definition le_bytes32 :: "u32 \<Rightarrow> byte list" where
  "le_bytes32 w = [ucast w, ucast (drop_bit 8 w), ucast (drop_bit 16 w), ucast (drop_bit 24 w)]"

definition le_bytes64 :: "64 word \<Rightarrow> byte list" where
  "le_bytes64 w = map (\<lambda>i. ucast (drop_bit (8 * i) w)) [0..<8]"

definition md5_pad :: "byte list \<Rightarrow> byte list" where
  "md5_pad bs =
     bs @ [0x80] @ replicate ((55 + 63 * (length bs mod 64)) mod 64) 0
        @ le_bytes64 (push_bit 3 (of_nat (length bs)))"

definition md5_digest :: "byte list \<Rightarrow> byte list" where
  "md5_digest bs =
     (case fold (\<lambda>blk. md5_block (map le_word (chunks 4 blk))) (chunks 64 (md5_pad bs))
             (0x67452301, 0xefcdab89, 0x98badcfe, 0x10325476) of
        (a, b, c, d) \<Rightarrow> concat (map le_bytes32 [a, b, c, d]))"

definition hex_digit :: "byte \<Rightarrow> char" where
  "hex_digit n = ''0123456789abcdef'' ! unat n"

definition hexdigest :: "byte list \<Rightarrow> string" where
  "hexdigest bs = concat (map (\<lambda>b. [hex_digit (drop_bit 4 b), hex_digit (b AND 0x0F)]) bs)"

definition md5_hexdigest :: "string \<Rightarrow> string" where
  "md5_hexdigest s = hexdigest (md5_digest (map of_char s))"

subsection \<open>FeatureCache._make_key\<close>

text \<open>\<open>sep.join(parts)\<close> of Python.\<close>

fun join :: "string \<Rightarrow> string list \<Rightarrow> string" where
  "join sep [] = []"
| "join sep [x] = x"
| "join sep (x # y # ys) = x @ sep @ join sep (y # ys)"

text \<open>
  The text that is hashed (cache.py, lines 24 to 29). \<open>if feature_names:\<close> is false for
  \<open>None\<close> and for the empty list, \<open>if version:\<close> for \<open>None\<close> and for the empty
  string.
\<close>

definition key_str :: "string \<Rightarrow> string list option \<Rightarrow> string option \<Rightarrow> string" where
  "key_str entity_id feature_names version =
     (let key_parts = [entity_id];
          key_parts = (case feature_names of
                         None \<Rightarrow> key_parts
                       | Some names \<Rightarrow>
                           if names = [] then key_parts
                           else key_parts @ [join '','' (sort names)]);
          key_parts = (case version of
                         None \<Rightarrow> key_parts
                       | Some ver \<Rightarrow> if ver = [] then key_parts else key_parts @ [ver])
      in join ''|'' key_parts)"

definition make_key :: "string \<Rightarrow> string list option \<Rightarrow> string option \<Rightarrow> string" where
  "make_key entity_id feature_names version =
     md5_hexdigest (key_str entity_id feature_names version)"

section \<open>Python values and the libraries the code calls\<close>

text \<open>
  The values that travel through the store: \<open>None\<close>, booleans, integers, floats,
  strings, lists, tuples, dicts and any other object. A float is carried by its
  \<open>repr\<close> text, since the modelled code does no float arithmetic of its own; an object
  that is none of the above (a set, a timestamp) is carried by the name of its type.
\<close>

datatype pyval =
    PNone
  | PBool bool
  | PInt int
  | PFloat string
  | PStr string
  | PList "pyval list"
  | PTuple "pyval list"
  | PDict "(pyval \<times> pyval) list"
  | PObject string

text \<open>\<open>isinstance(value, (dict, list))\<close>\<close>

fun is_dict_or_list :: "pyval \<Rightarrow> bool" where
  "is_dict_or_list (PList xs) = True"
| "is_dict_or_list (PDict kvs) = True"
| "is_dict_or_list v = False"

text \<open>
  A pandas column has a dtype, which pandas assigns when the frame is built; the
  validation reads nothing else of a column.
\<close>

datatype dtype = Int64 | UInt64 | Float64 | Bool | Object | StringDtype | Datetime64

record column =
  col_name :: string
  col_dtype :: dtype
  col_cells :: "pyval list"

record dataframe =
  df_index :: "pyval list"
  df_columns :: "column list"

text \<open>A pandas Series as the pairs that \<open>.items()\<close> yields: index label and value.\<close>

type_synonym series = "(pyval \<times> pyval) list"

text \<open>
  What \<open>exec(computation_logic, {"__builtins__": {}}, safe_dict)\<close> can do: return, leaving
  \<open>result\<close> bound in \<open>safe_dict\<close> or not; raise an exception that is an instance of
  \<open>Exception\<close> (with its \<open>str\<close>); or raise one that is not (\<open>SystemExit\<close>,
  \<open>KeyboardInterrupt\<close>, \<open>GeneratorExit\<close>), named by its class.
\<close>

datatype py_object = Series series | DataFrame dataframe | OtherObject pyval

datatype exec_outcome =
    Completed "py_object option"
  | RaisedException string
  | RaisedBaseException string

text \<open>
  The library functions the repository calls and does not define. \<open>json_dumps\<close> and
  \<open>pd_DataFrame\<close> return \<open>None\<close> where the library raises; \<open>json_loads\<close> returns
  \<open>None\<close> where it raises \<open>JSONDecodeError\<close>.
\<close>

record pylib =
  py_str :: "pyval \<Rightarrow> string"
  json_dumps :: "pyval \<Rightarrow> string option"
  json_loads :: "string \<Rightarrow> pyval option"
  pd_DataFrame :: "(string \<times> pyval) list list \<Rightarrow> dataframe option"
  exec_logic :: "string \<Rightarrow> dataframe \<Rightarrow> exec_outcome"

section \<open>Schema validation (compute.py, validate_raw_data_schema)\<close>

record schema_definition =
  required_columns :: "string list option"
  column_types :: "(string \<times> string) list option"

datatype schema_error =
    MissingRequiredColumns "string set"
  | ExpectedNumeric string dtype
  | ExpectedString string dtype

definition columns :: "dataframe \<Rightarrow> string list" where
  "columns df = map col_name (df_columns df)"

definition get_column :: "dataframe \<Rightarrow> string \<Rightarrow> column option" where
  "get_column df name = find (\<lambda>c. col_name c = name) (df_columns df)"

fun is_numeric_dtype :: "dtype \<Rightarrow> bool" where
  "is_numeric_dtype Int64 = True"
| "is_numeric_dtype UInt64 = True"
| "is_numeric_dtype Float64 = True"
| "is_numeric_dtype Bool = True"
| "is_numeric_dtype d = False"

fun is_str :: "pyval \<Rightarrow> bool" where
  "is_str (PStr s) = True"
| "is_str v = False"

text \<open>
  \<open>pd.api.types.is_string_dtype\<close> on a column: a string dtype, or an object column whose
  elements are all strings.
\<close>

definition is_string_dtype :: "column \<Rightarrow> bool" where
  "is_string_dtype c =
     (case col_dtype c of
        StringDtype \<Rightarrow> True
      | Object \<Rightarrow> list_all is_str (col_cells c)
      | _ \<Rightarrow> False)"

fun is_object_dtype :: "dtype \<Rightarrow> bool" where
  "is_object_dtype Object = True"
| "is_object_dtype d = False"

text \<open>The loop over \<open>column_types.items()\<close>; \<open>None\<close> when it runs to its end.\<close>

fun check_column_types :: "dataframe \<Rightarrow> (string \<times> string) list \<Rightarrow> schema_error option" where
  "check_column_types raw_data [] = None"
| "check_column_types raw_data ((col, expected_type) # rest) =
     (case get_column raw_data col of
        None \<Rightarrow> check_column_types raw_data rest
      | Some c \<Rightarrow>
          if expected_type = ''numeric'' \<and> \<not> is_numeric_dtype (col_dtype c)
          then Some (ExpectedNumeric col (col_dtype c))
          else if expected_type = ''string'' \<and> \<not> is_string_dtype c
          then (if \<not> is_object_dtype (col_dtype c)
                then Some (ExpectedString col (col_dtype c))
                else check_column_types raw_data rest)
          else check_column_types raw_data rest)"

text \<open>\<open>schema_definition.get('required_columns', [])\<close> and \<open>schema_definition.get('column_types', {})\<close>\<close>

definition schema_required :: "schema_definition \<Rightarrow> string list" where
  "schema_required schema = (case required_columns schema of None \<Rightarrow> [] | Some r \<Rightarrow> r)"

definition schema_types :: "schema_definition \<Rightarrow> (string \<times> string) list" where
  "schema_types schema = (case column_types schema of None \<Rightarrow> [] | Some t \<Rightarrow> t)"

definition validate_raw_data_schema :: "dataframe \<Rightarrow> schema_definition \<Rightarrow> schema_error + bool" where
  "validate_raw_data_schema raw_data schema =
     (let required = schema_required schema;
          types = schema_types schema;
          missing_columns = set required - set (columns raw_data)
      in if missing_columns \<noteq> {} then Inl (MissingRequiredColumns missing_columns)
         else (case check_column_types raw_data types of
                 Some e \<Rightarrow> Inl e
               | None \<Rightarrow> Inr True))"

section \<open>Computation (compute.py, compute_feature)\<close>

text \<open>
  The inner \<open>ValueError\<close>s are raised inside the \<open>try\<close> and so are caught by its own
  \<open>except Exception\<close>, like an exception of the logic: each leaves as one
  \<open>ValueError("Error computing feature: ...")\<close>, told apart here by what it wraps.
\<close>

datatype compute_error =
    ResultNotAssigned
  | NotSingleColumn
  | NotSeriesOrDataFrame
  | LogicRaised string

datatype exception =
    ComputationError compute_error
  | JSONTypeError pyval
  | NameError string
  | AttributeError string
  | NotAnException string

text \<open>
  \<open>db\<close>, \<open>feature_id\<close> and \<open>version\<close> are parameters of the source function that its
  body never reads. An exception that is not an instance of \<open>Exception\<close> passes the
  \<open>except Exception\<close> clause.
\<close>

definition compute_feature :: "pylib \<Rightarrow> dataframe \<Rightarrow> string \<Rightarrow> exception + series" where
  "compute_feature L raw_data computation_logic =
     (case exec_logic L computation_logic raw_data of
        RaisedBaseException name \<Rightarrow> Inl (NotAnException name)
      | RaisedException msg \<Rightarrow> Inl (ComputationError (LogicRaised msg))
      | Completed None \<Rightarrow> Inl (ComputationError ResultNotAssigned)
      | Completed (Some (Series s)) \<Rightarrow> Inr s
      | Completed (Some (DataFrame d)) \<Rightarrow>
          (case df_columns d of
             [c] \<Rightarrow> Inr (zip (df_index d) (col_cells c))
           | _ \<Rightarrow> Inl (ComputationError NotSingleColumn))
      | Completed (Some (OtherObject v)) \<Rightarrow> Inl (ComputationError NotSeriesOrDataFrame))"

section \<open>The persistent store (models.py) and its session\<close>

record raw_table =
  rt_id :: nat
  rt_name :: string
  rt_schema_definition :: schema_definition

record feature =
  f_id :: nat
  f_name :: string
  f_raw_table_id :: nat
  f_computation_logic :: string

record feature_version =
  v_id :: nat
  v_feature_id :: nat
  v_version :: string
  v_status :: string
  v_computed_at :: int
  v_metadata :: "pyval option"

record feature_value =
  fv_id :: nat
  fv_feature_version_id :: nat
  fv_entity_id :: string
  fv_value :: string
  fv_computed_at :: int

text \<open>The committed tables, rows in insertion order.\<close>

record database =
  raw_tables :: "raw_table list"
  features :: "feature list"
  versions :: "feature_version list"
  fvalues :: "feature_value list"

text \<open>
  Modelled from the spec: the module \<open>database\<close> (\<open>get_db\<close>, \<open>init_db\<close>, \<open>Base\<close>)
  is not among the sources. The spec has the store as a persistent record store with
  create, query and transactional commit, and \<open>get_db\<close> hands each request a session
  of its own. A session holds the objects added and not yet committed. \<open>commit\<close>
  inserts them, the database assigning the primary key and the \<open>computed_at\<close> default;
  \<open>rollback\<close> forgets them and leaves what was committed before.
\<close>

datatype pending_row =
    NewVersion nat string string "pyval option"
  | NewValue nat string string

record session =
  store :: database
  pending :: "pending_row list"

definition next_id :: "nat list \<Rightarrow> nat" where
  "next_id ids = fold max ids 0 + 1"

fun insert_row :: "int \<Rightarrow> pending_row \<Rightarrow> database \<Rightarrow> database" where
  "insert_row now (NewVersion fid ver st md) db =
     db\<lparr>versions := versions db @
          [\<lparr>v_id = next_id (map v_id (versions db)), v_feature_id = fid, v_version = ver,
            v_status = st, v_computed_at = now, v_metadata = md\<rparr>]\<rparr>"
| "insert_row now (NewValue vid ent val) db =
     db\<lparr>fvalues := fvalues db @
          [\<lparr>fv_id = next_id (map fv_id (fvalues db)), fv_feature_version_id = vid,
            fv_entity_id = ent, fv_value = val, fv_computed_at = now\<rparr>]\<rparr>"

definition db_add :: "pending_row \<Rightarrow> session \<Rightarrow> session" where
  "db_add row s = s\<lparr>pending := pending s @ [row]\<rparr>"

definition db_commit :: "int \<Rightarrow> session \<Rightarrow> session" where
  "db_commit now s = \<lparr>store = fold (insert_row now) (pending s) (store s), pending = []\<rparr>"

definition db_rollback :: "session \<Rightarrow> session" where
  "db_rollback s = s\<lparr>pending := []\<rparr>"

section \<open>Storing values (compute.py, store_feature_values)\<close>

text \<open>Lines 76 to 79: a dict or a list is stored as JSON text, anything else as its \<open>str\<close>.\<close>

definition encode_value :: "pylib \<Rightarrow> pyval \<Rightarrow> exception + string" where
  "encode_value L v =
     (if is_dict_or_list v
      then (case json_dumps L v of None \<Rightarrow> Inl (JSONTypeError v) | Some s \<Rightarrow> Inr s)
      else Inr (py_str L v))"

text \<open>
  The names bound at module level in compute.py: those its imports bring in (lines 2 to
  6) and the three functions it defines. \<open>FeatureValue\<close>, which line 81 calls, is not
  among them and is no builtin, so evaluating that name raises \<open>NameError\<close>.
\<close>

definition compute_globals :: "string list" where
  "compute_globals =
     [''pd'', ''Session'', ''Dict'', ''Any'', ''List'', ''json'', ''hashlib'',
      ''compute_feature'', ''store_feature_values'', ''validate_raw_data_schema'']"

text \<open>
  The loop: the value is encoded, then the row is to be built and added. The callee
  \<open>FeatureValue\<close> is looked up before its arguments are evaluated; an exception leaves the
  loop with the session as it is.
\<close>

fun add_feature_values :: "pylib \<Rightarrow> nat \<Rightarrow> series \<Rightarrow> session \<Rightarrow> exception option \<times> session" where
  "add_feature_values L feature_version_id [] s = (None, s)"
| "add_feature_values L feature_version_id ((entity_id, v) # rest) s =
     (case encode_value L v of
        Inl e \<Rightarrow> (Some e, s)
      | Inr value_str \<Rightarrow>
          if ''FeatureValue'' \<in> set compute_globals
          then add_feature_values L feature_version_id rest
                 (db_add (NewValue feature_version_id (py_str L entity_id) value_str) s)
          else (Some (NameError ''FeatureValue''), s))"

definition store_feature_values ::
  "pylib \<Rightarrow> int \<Rightarrow> nat \<Rightarrow> series \<Rightarrow> session \<Rightarrow> exception option \<times> session" where
  "store_feature_values L now feature_version_id feature_values s =
     (case add_feature_values L feature_version_id feature_values s of
        (Some e, s') \<Rightarrow> (Some e, s')
      | (None, s') \<Rightarrow> (None, db_commit now s'))"

section \<open>The vector cache (cache.py, FeatureCache over cachetools.TTLCache)\<close>

type_synonym vector = "(string \<times> pyval) list"

record cache_entry =
  ce_key :: string
  ce_value :: vector
  ce_expires :: int

text \<open>
  The global instance is \<open>FeatureCache(maxsize=1000, ttl=3600)\<close>. The cache is the list
  of its entries, least recently used first. An entry is live while the clock is before
  its expiry; \<open>get\<close> returns a live entry and makes it the most recently used; \<open>set\<close>
  drops the expired entries, makes room by dropping the least recently used ones when
  the key is new and the cache is full, and stores the entry with expiry \<open>now + ttl\<close>.
\<close>

definition cache_maxsize :: nat where
  "cache_maxsize = 1000"

definition cache_ttl :: int where
  "cache_ttl = 3600"

type_synonym cache = "cache_entry list"

definition ttl_get :: "int \<Rightarrow> string \<Rightarrow> cache \<Rightarrow> vector option \<times> cache" where
  "ttl_get now k c =
     (case find (\<lambda>e. ce_key e = k) c of
        None \<Rightarrow> (None, c)
      | Some e \<Rightarrow>
          if now < ce_expires e
          then (Some (ce_value e), filter (\<lambda>e'. ce_key e' \<noteq> k) c @ [e])
          else (None, c))"

definition ttl_set :: "int \<Rightarrow> string \<Rightarrow> vector \<Rightarrow> cache \<Rightarrow> cache" where
  "ttl_set now k v c =
     (let live = filter (\<lambda>e. now < ce_expires e) c;
          room = (if k \<in> set (map ce_key live) then live
                  else drop (length live + 1 - cache_maxsize) live)
      in filter (\<lambda>e. ce_key e \<noteq> k) room
           @ [\<lparr>ce_key = k, ce_value = v, ce_expires = now + cache_ttl\<rparr>])"

definition cache_get ::
  "int \<Rightarrow> string \<Rightarrow> string list option \<Rightarrow> string option \<Rightarrow> cache \<Rightarrow> vector option \<times> cache" where
  "cache_get now entity_id feature_names version c =
     ttl_get now (make_key entity_id feature_names version) c"

definition cache_set ::
  "int \<Rightarrow> string \<Rightarrow> vector \<Rightarrow> string list option \<Rightarrow> string option \<Rightarrow> cache \<Rightarrow> cache" where
  "cache_set now entity_id fs feature_names version c =
     ttl_set now (make_key entity_id feature_names version) fs c"

section \<open>The application (main.py)\<close>

record app_state =
  app_db :: database
  app_cache :: cache

datatype raw_data_error = FrameError | EntityColumnNotFound string

datatype http_detail =
    FeatureNotFound nat
  | VersionExists string nat
  | InvalidRawData raw_data_error
  | SchemaValidationFailed schema_error
  | ComputationFailed exception
  | StoreFailed exception
  | NoFeatureVectors string

text \<open>
  A handler ends with its response, with an \<open>HTTPException\<close> (status code and detail),
  or with an exception that no clause of the handler caught.
\<close>

datatype http_error = HTTPException nat http_detail | Unhandled exception

subsection \<open>compute_feature_version\<close>

record compute_request =
  cr_version :: string
  cr_metadata :: "pyval option"
  cr_data :: "(string \<times> pyval) list list"
  cr_entity_id_column :: string

text \<open>\<open>df.set_index(name)\<close>: the column becomes the index and is no longer a column.\<close>

definition set_index :: "dataframe \<Rightarrow> column \<Rightarrow> dataframe" where
  "set_index df c =
     \<lparr>df_index = col_cells c,
      df_columns = filter (\<lambda>c'. col_name c' \<noteq> col_name c) (df_columns df)\<rparr>"

text \<open>Lines 174 to 188.\<close>

definition build_frame :: "pylib \<Rightarrow> compute_request \<Rightarrow> raw_data_error + dataframe" where
  "build_frame L request =
     (case pd_DataFrame L (cr_data request) of
        None \<Rightarrow> Inl FrameError
      | Some df \<Rightarrow>
          (case get_column df (cr_entity_id_column request) of
             None \<Rightarrow> Inl (EntityColumnNotFound (cr_entity_id_column request))
           | Some c \<Rightarrow> Inr (set_index df c)))"

text \<open>
  Lines 208 to 230: the version is added and committed, then the values are stored in a
  second transaction; when that fails the session is rolled back.
\<close>

definition create_version_and_store ::
  "pylib \<Rightarrow> int \<Rightarrow> nat \<Rightarrow> compute_request \<Rightarrow> series \<Rightarrow> app_state
     \<Rightarrow> (http_error + feature_version) \<times> app_state" where
  "create_version_and_store L now feature_id request feature_values st =
     (let s0 = \<lparr>store = app_db st, pending = []\<rparr>;
          s1 = db_commit now
                 (db_add (NewVersion feature_id (cr_version request) ''active''
                            (cr_metadata request)) s0);
          db_version = last (versions (store s1))
      in case store_feature_values L now (v_id db_version) feature_values s1 of
           (Some e, s2) \<Rightarrow>
             (Inl (HTTPException 500 (StoreFailed e)), st\<lparr>app_db := store (db_rollback s2)\<rparr>)
         | (None, s2) \<Rightarrow> (Inr db_version, st\<lparr>app_db := store s2\<rparr>))"

definition validate_and_compute ::
  "pylib \<Rightarrow> int \<Rightarrow> nat \<Rightarrow> compute_request \<Rightarrow> feature \<Rightarrow> dataframe \<Rightarrow> app_state
     \<Rightarrow> (http_error + feature_version) \<times> app_state" where
  "validate_and_compute L now feature_id request feature df st =
     (case find (\<lambda>t. rt_id t = f_raw_table_id feature) (raw_tables (app_db st)) of
        None \<Rightarrow> (Inl (Unhandled (AttributeError ''schema_definition'')), st)
      | Some raw_table \<Rightarrow>
          (case validate_raw_data_schema df (rt_schema_definition raw_table) of
             Inl e \<Rightarrow> (Inl (HTTPException 400 (SchemaValidationFailed e)), st)
           | Inr ok \<Rightarrow>
               (case compute_feature L df (f_computation_logic feature) of
                  Inl (NotAnException name) \<Rightarrow> (Inl (Unhandled (NotAnException name)), st)
                | Inl e \<Rightarrow> (Inl (HTTPException 500 (ComputationFailed e)), st)
                | Inr feature_values \<Rightarrow>
                    create_version_and_store L now feature_id request feature_values st)))"

definition compute_feature_version ::
  "pylib \<Rightarrow> int \<Rightarrow> nat \<Rightarrow> compute_request \<Rightarrow> app_state
     \<Rightarrow> (http_error + feature_version) \<times> app_state" where
  "compute_feature_version L now feature_id request st =
     (case find (\<lambda>f. f_id f = feature_id) (features (app_db st)) of
        None \<Rightarrow> (Inl (HTTPException 404 (FeatureNotFound feature_id)), st)
      | Some feature \<Rightarrow>
          (case find (\<lambda>v. v_feature_id v = feature_id \<and> v_version v = cr_version request)
                  (versions (app_db st)) of
             Some existing_version \<Rightarrow>
               (Inl (HTTPException 400 (VersionExists (cr_version request) feature_id)), st)
           | None \<Rightarrow>
               (case build_frame L request of
                  Inl e \<Rightarrow> (Inl (HTTPException 400 (InvalidRawData e)), st)
                | Inr df \<Rightarrow> validate_and_compute L now feature_id request feature df st)))"

subsection \<open>get_feature_vector\<close>

record vector_request =
  rq_entity_id :: string
  rq_feature_names :: "string list option"
  rq_version :: "string option"

record vector_response =
  rs_entity_id :: string
  rs_features :: vector
  rs_retrieved_at :: int

type_synonym result_row = "feature_value \<times> feature_version \<times> feature"

text \<open>Lines 297 to 300: the active versions of the feature, newest first, and the first of them.\<close>

definition latest_active_version :: "database \<Rightarrow> nat \<Rightarrow> feature_version option" where
  "latest_active_version db feature_id =
     (case sort_key (\<lambda>v. - v_computed_at v)
             (filter (\<lambda>v. v_feature_id v = feature_id \<and> v_status v = ''active'') (versions db)) of
        [] \<Rightarrow> None
      | v # vs \<Rightarrow> Some v)"

text \<open>Lines 304 to 307.\<close>

definition value_for :: "database \<Rightarrow> nat \<Rightarrow> string \<Rightarrow> feature_value option" where
  "value_for db version_id entity_id =
     find (\<lambda>fv. fv_feature_version_id fv = version_id \<and> fv_entity_id fv = entity_id) (fvalues db)"

text \<open>The loop of lines 294 to 310.\<close>

fun latest_results :: "database \<Rightarrow> string \<Rightarrow> feature list \<Rightarrow> result_row list" where
  "latest_results db entity_id [] = []"
| "latest_results db entity_id (f # fs) =
     (case latest_active_version db (f_id f) of
        None \<Rightarrow> latest_results db entity_id fs
      | Some latest_version \<Rightarrow>
          (case value_for db (v_id latest_version) entity_id of
             None \<Rightarrow> latest_results db entity_id fs
           | Some feature_value \<Rightarrow>
               (feature_value, latest_version, f) # latest_results db entity_id fs))"

text \<open>\<open>Feature.name.in_(request.feature_names)\<close>, applied when names are given.\<close>

definition named_features :: "string list option \<Rightarrow> feature list \<Rightarrow> feature list" where
  "named_features feature_names fs =
     (case feature_names of
        None \<Rightarrow> fs
      | Some names \<Rightarrow> if names = [] then fs else filter (\<lambda>f. f_name f \<in> set names) fs)"

text \<open>Lines 270 to 282: the join for an explicit version.\<close>

definition version_results ::
  "database \<Rightarrow> string \<Rightarrow> string list option \<Rightarrow> string \<Rightarrow> result_row list" where
  "version_results db entity_id feature_names ver =
     concat (map (\<lambda>fv.
       concat (map (\<lambda>v.
         map (\<lambda>f. (fv, v, f))
           (named_features feature_names
              (filter (\<lambda>f. f_id f = v_feature_id v) (features db))))
         (filter (\<lambda>v. v_id v = fv_feature_version_id fv \<and> v_version v = ver) (versions db))))
       (filter (\<lambda>fv. fv_entity_id fv = entity_id) (fvalues db)))"

text \<open>Lines 322 to 325: JSON first, the stored text itself when that fails.\<close>

definition decode_value :: "pylib \<Rightarrow> string \<Rightarrow> pyval" where
  "decode_value L s = (case json_loads L s of Some v \<Rightarrow> v | None \<Rightarrow> PStr s)"

text \<open>\<open>d[k] = v\<close> on a Python dict.\<close>

fun dict_set :: "'k \<Rightarrow> 'v \<Rightarrow> ('k \<times> 'v) list \<Rightarrow> ('k \<times> 'v) list" where
  "dict_set k v [] = [(k, v)]"
| "dict_set k v ((k', v') # kvs) =
     (if k' = k then (k, v) # kvs else (k', v') # dict_set k v kvs)"

definition build_vector :: "pylib \<Rightarrow> result_row list \<Rightarrow> vector" where
  "build_vector L results =
     fold (\<lambda>(feature_value, feature_version, feature) feature_vector.
             dict_set (f_name feature) (decode_value L (fv_value feature_value)) feature_vector)
          results []"

definition resolve_results :: "vector_request \<Rightarrow> database \<Rightarrow> result_row list" where
  "resolve_results request db =
     (case rq_version request of
        Some (c # cs) \<Rightarrow>
          version_results db (rq_entity_id request) (rq_feature_names request) (c # cs)
      | _ \<Rightarrow>
          latest_results db (rq_entity_id request)
            (named_features (rq_feature_names request) (features db)))"

definition get_feature_vector ::
  "pylib \<Rightarrow> int \<Rightarrow> vector_request \<Rightarrow> app_state \<Rightarrow> (http_error + vector_response) \<times> app_state" where
  "get_feature_vector L now request st =
     (case cache_get now (rq_entity_id request) (rq_feature_names request) (rq_version request)
             (app_cache st) of
        (Some (kv # kvs), c) \<Rightarrow>
          (Inr \<lparr>rs_entity_id = rq_entity_id request, rs_features = kv # kvs,
                rs_retrieved_at = now\<rparr>,
           st\<lparr>app_cache := c\<rparr>)
      | (cached, c) \<Rightarrow>
          (case resolve_results request (app_db st) of
             [] \<Rightarrow> (Inl (HTTPException 404 (NoFeatureVectors (rq_entity_id request))),
                    st\<lparr>app_cache := c\<rparr>)
           | r # rs \<Rightarrow>
               (let feature_vector = build_vector L (r # rs)
                in (Inr \<lparr>rs_entity_id = rq_entity_id request, rs_features = feature_vector,
                         rs_retrieved_at = now\<rparr>,
                    st\<lparr>app_cache :=
                         cache_set now (rq_entity_id request) feature_vector
                           (rq_feature_names request) (rq_version request) c\<rparr>))))"

section \<open>Example data\<close>

text \<open>
  The scenario of the spec: a raw table that requires a numeric column \<open>amount\<close>, a
  feature \<open>total\<close> that sums \<open>amount\<close> per entity, and the records
  \<open>{id: x, amount: 5}\<close> and \<open>{id: x, amount: 7}\<close>. The library is given at the values
  the examples use, each entry being what Python, pandas and json answer there, and is
  left unspecified elsewhere.
\<close>

definition sum_logic :: string where
  "sum_logic = ''result = df.groupby(level=0).amount.sum()''"

definition sets_logic :: string where
  "sets_logic = ''result = df.amount.map(lambda a: [{a}])''"

definition exit_logic :: string where
  "exit_logic = ''pd.io.common.os.sys.exit()''"

definition unfinished_logic :: string where
  "unfinished_logic = ''result = ''"

definition syntax_error :: string where
  "syntax_error = ''invalid syntax (<string>, line 1)''"

definition no_result_logic :: string where
  "no_result_logic = ''total = df.amount.sum()''"

definition sample_records :: "(string \<times> pyval) list list" where
  "sample_records =
     [[(''id'', PStr ''x''), (''amount'', PInt 5)],
      [(''id'', PStr ''x''), (''amount'', PInt 7)]]"

definition sample_frame :: dataframe where
  "sample_frame =
     \<lparr>df_index = [PInt 0, PInt 1],
      df_columns =
        [\<lparr>col_name = ''id'', col_dtype = Object, col_cells = [PStr ''x'', PStr ''x'']\<rparr>,
         \<lparr>col_name = ''amount'', col_dtype = Int64, col_cells = [PInt 5, PInt 7]\<rparr>]\<rparr>"

text \<open>The same frame after \<open>set_index('id')\<close>.\<close>

definition indexed_frame :: dataframe where
  "indexed_frame =
     \<lparr>df_index = [PStr ''x'', PStr ''x''],
      df_columns =
        [\<lparr>col_name = ''amount'', col_dtype = Int64, col_cells = [PInt 5, PInt 7]\<rparr>]\<rparr>"

definition short_records :: "(string \<times> pyval) list list" where
  "short_records = [[(''id'', PStr ''x'')]]"

definition short_frame :: dataframe where
  "short_frame =
     \<lparr>df_index = [PInt 0],
      df_columns = [\<lparr>col_name = ''id'', col_dtype = Object, col_cells = [PStr ''x'']\<rparr>]\<rparr>"

definition sample_DataFrame :: "(string \<times> pyval) list list \<Rightarrow> dataframe option" where
  "sample_DataFrame data =
     (if data = sample_records then Some sample_frame
      else if data = short_records then Some short_frame
      else undefined)"

text \<open>
  The interpreter at the programs of the examples. A text that does not parse raises
  \<open>SyntaxError\<close> and \<open>sys.exit()\<close> raises \<open>SystemExit\<close> whatever the frame is; the
  other three programs are given at the indexed frame, where the sum per entity is 12 for
  \<open>x\<close> and each row's value becomes a list holding a set.
\<close>

definition sample_exec :: "string \<Rightarrow> dataframe \<Rightarrow> exec_outcome" where
  "sample_exec code df =
     (if code = unfinished_logic then RaisedException syntax_error
      else if code = exit_logic then RaisedBaseException ''SystemExit''
      else if code = sum_logic \<and> df = indexed_frame
      then Completed (Some (Series [(PStr ''x'', PInt 12)]))
      else if code = sets_logic \<and> df = indexed_frame
      then Completed (Some (Series [(PStr ''x'', PList [PObject ''set'']),
                                    (PStr ''x'', PList [PObject ''set''])]))
      else if code = no_result_logic \<and> df = indexed_frame then Completed None
      else undefined)"

text \<open>\<open>json.dumps({"a": 1})\<close>\<close>

definition json_a1 :: string where
  "json_a1 = ''{'' @ [CHR 0x22] @ ''a'' @ [CHR 0x22] @ '': 1}''"

definition sample_dumps :: "pyval \<Rightarrow> string option" where
  "sample_dumps v =
     (if v = PDict [(PStr ''a'', PInt 1)] then Some json_a1
      else if v = PList [PInt 1, PInt 2] then Some ''[1, 2]''
      else if v = PList [PObject ''set''] then None
      else undefined)"

definition sample_loads :: "string \<Rightarrow> pyval option" where
  "sample_loads s =
     (if s = json_a1 then Some (PDict [(PStr ''a'', PInt 1)])
      else if s = ''[1, 2]'' then Some (PList [PInt 1, PInt 2])
      else if s = ''12'' then Some (PInt 12)
      else if s = ''42'' then Some (PInt 42)
      else if s = ''abc'' then None
      else undefined)"

text \<open>
  \<open>str\<close> of an integer is its decimal text, of a string the string, of a float its
  \<open>repr\<close>; \<open>str\<close> of a list, a tuple, a dict or another object is used by no example
  and left unspecified.
\<close>

fun decimal :: "nat \<Rightarrow> string" where
  "decimal n =
     (if n < 10 then [''0123456789'' ! n]
      else decimal (n div 10) @ [''0123456789'' ! (n mod 10)])"

declare decimal.simps [simp del]

fun sample_str :: "pyval \<Rightarrow> string" where
  "sample_str (PStr s) = s"
| "sample_str (PInt i) = (if i < 0 then ''-'' @ decimal (nat (- i)) else decimal (nat i))"
| "sample_str (PFloat r) = r"
| "sample_str (PBool b) = (if b then ''True'' else ''False'')"
| "sample_str PNone = ''None''"
| "sample_str v = undefined"

definition sample_lib :: pylib where
  "sample_lib =
     \<lparr>py_str = sample_str, json_dumps = sample_dumps, json_loads = sample_loads,
      pd_DataFrame = sample_DataFrame, exec_logic = sample_exec\<rparr>"

definition sample_schema :: schema_definition where
  "sample_schema =
     \<lparr>required_columns = Some [''amount''],
      column_types = Some [(''amount'', ''numeric'')]\<rparr>"

definition sample_db :: database where
  "sample_db =
     \<lparr>raw_tables =
        [\<lparr>rt_id = 1, rt_name = ''payments'', rt_schema_definition = sample_schema\<rparr>],
      features =
        [\<lparr>f_id = 1, f_name = ''total'', f_raw_table_id = 1, f_computation_logic = sum_logic\<rparr>,
         \<lparr>f_id = 2, f_name = ''amounts'', f_raw_table_id = 1, f_computation_logic = sets_logic\<rparr>,
         \<lparr>f_id = 3, f_name = ''stop'', f_raw_table_id = 1, f_computation_logic = exit_logic\<rparr>,
         \<lparr>f_id = 4, f_name = ''broken'', f_raw_table_id = 1, f_computation_logic = unfinished_logic\<rparr>],
      versions = [],
      fvalues = []\<rparr>"

definition sample_state :: app_state where
  "sample_state = \<lparr>app_db = sample_db, app_cache = []\<rparr>"

definition sample_request :: compute_request where
  "sample_request =
     \<lparr>cr_version = ''v1'', cr_metadata = None, cr_data = sample_records,
      cr_entity_id_column = ''id''\<rparr>"

definition short_request :: compute_request where
  "short_request =
     \<lparr>cr_version = ''v1'', cr_metadata = None, cr_data = short_records,
      cr_entity_id_column = ''id''\<rparr>"

text \<open>
  The frame pandas builds from \<open>{id: x, amount: "5"}\<close> and \<open>{id: y, amount: "7"}\<close>,
  with \<open>id\<close> as the index: a column of texts has dtype \<open>object\<close>.
\<close>

definition amount_text_column :: column where
  "amount_text_column =
     \<lparr>col_name = ''amount'', col_dtype = Object, col_cells = [PStr ''5'', PStr ''7'']\<rparr>"

definition text_frame :: dataframe where
  "text_frame = \<lparr>df_index = [PStr ''x'', PStr ''y''], df_columns = [amount_text_column]\<rparr>"

text \<open>
  The feature \<open>total\<close> with two versions, \<open>v1\<close> computed at time 10 and \<open>v2\<close> at time
  20, and a value for entity \<open>x\<close> under each; the status of \<open>v2\<close> is left open.
\<close>

definition version_1 :: feature_version where
  "version_1 =
     \<lparr>v_id = 1, v_feature_id = 1, v_version = ''v1'', v_status = ''active'',
      v_computed_at = 10, v_metadata = None\<rparr>"

definition version_2 :: "string \<Rightarrow> feature_version" where
  "version_2 status =
     \<lparr>v_id = 2, v_feature_id = 1, v_version = ''v2'', v_status = status,
      v_computed_at = 20, v_metadata = None\<rparr>"

definition value_1 :: feature_value where
  "value_1 =
     \<lparr>fv_id = 1, fv_feature_version_id = 1, fv_entity_id = ''x'', fv_value = ''12'',
      fv_computed_at = 10\<rparr>"

definition value_2 :: feature_value where
  "value_2 =
     \<lparr>fv_id = 2, fv_feature_version_id = 2, fv_entity_id = ''x'', fv_value = ''42'',
      fv_computed_at = 20\<rparr>"

definition versioned_db :: "string \<Rightarrow> database" where
  "versioned_db status =
     sample_db\<lparr>versions := [version_1, version_2 status], fvalues := [value_1, value_2]\<rparr>"

definition total_feature :: feature where
  "total_feature =
     \<lparr>f_id = 1, f_name = ''total'', f_raw_table_id = 1, f_computation_logic = sum_logic\<rparr>"

definition served_state :: app_state where
  "served_state = \<lparr>app_db = versioned_db ''active'', app_cache = []\<rparr>"

definition request_for :: "string \<Rightarrow> vector_request" where
  "request_for entity = \<lparr>rq_entity_id = entity, rq_feature_names = None, rq_version = None\<rparr>"

definition third_request :: compute_request where
  "third_request =
     \<lparr>cr_version = ''v3'', cr_metadata = None, cr_data = sample_records,
      cr_entity_id_column = ''id''\<rparr>"

section \<open>The spec's reading of a numeric column\<close>

text \<open>
  Written from the words of the spec, to be compared with the check of the code: a value
  is numeric-coercible when it is a number, a boolean or a text of decimal digits; a
  column conforms to \<open>numeric\<close> when all its present values are numeric-coercible.
\<close>

definition digits_text :: "string \<Rightarrow> bool" where
  "digits_text s = (s \<noteq> [] \<and> list_all (\<lambda>c. c \<in> set ''0123456789'') s)"

fun numeric_coercible :: "pyval \<Rightarrow> bool" where
  "numeric_coercible (PInt i) = True"
| "numeric_coercible (PFloat r) = True"
| "numeric_coercible (PBool b) = True"
| "numeric_coercible (PStr s) = digits_text s"
| "numeric_coercible v = False"

definition spec_numeric_column :: "column \<Rightarrow> bool" where
  "spec_numeric_column c = list_all numeric_coercible (filter (\<lambda>v. v \<noteq> PNone) (col_cells c))"

section \<open>Properties of the cache key\<close>

lemma sort_cong_mset:
  fixes xs ys :: "string list"
  assumes "mset xs = mset ys"
  shows "sort xs = sort ys"
proof (rule properties_for_sort)
  show "mset (sort ys) = mset xs" using assms by simp
  show "sorted (sort ys)" by simp
qed

lemma key_str_permutation:
  assumes "mset fs = mset fs'"
  shows "key_str e (Some fs) v = key_str e (Some fs') v"
proof -
  have empty: "(fs = []) = (fs' = [])"
    using assms by (metis mset_zero_iff)
  have sorted_eq: "sort fs = sort fs'"
    using assms by (rule sort_cong_mset)
  show ?thesis
    by (simp add: key_str_def Let_def empty sorted_eq cong: if_cong)
qed

text \<open>
  C7. The derived key does not depend on the order of the feature names: for every entity,
  every version (given or not) and every two lists of feature names that are permutations
  of each other, the keys are equal, and so a lookup with the one list finds what a lookup
  with the other finds; the spec's instance is the lists b, a and a, b.
\<close>

theorem make_key_order_independent:
  "mset fs = mset fs' \<Longrightarrow>
     make_key e (Some fs) v = make_key e (Some fs') v
     \<and> cache_get now e (Some fs) v c = cache_get now e (Some fs') v c"
proof -
  assume "mset fs = mset fs'"
  then have "key_str e (Some fs) v = key_str e (Some fs') v"
    by (rule key_str_permutation)
  then show ?thesis
    by (simp add: make_key_def cache_get_def)
qed

theorem make_key_order_independent_witness:
  "mset [''b'', ''a''] = mset [''a'', ''b'']
   \<and> make_key ''user_1'' (Some [''b'', ''a'']) (Some ''v1'')
     = make_key ''user_1'' (Some [''a'', ''b'']) (Some ''v1'')"
proof -
  have h: "mset [''b'', ''a''] = mset [''a'', ''b'']" by simp
  from make_key_order_independent [OF h, THEN conjunct1] have
    "make_key ''user_1'' (Some [''b'', ''a'']) (Some ''v1'')
     = make_key ''user_1'' (Some [''a'', ''b'']) (Some ''v1'')" .
  with h show ?thesis by (rule conjI)
qed

lemma md5_hexdigest_empty: "md5_hexdigest [] = ''d41d8cd98f00b204e9800998ecf8427e''"
  by code_simp

lemma md5_hexdigest_bar: "md5_hexdigest ''|'' = ''b99834bc19bbad24580b3adfa04fb947''"
  by code_simp

text \<open>
  C10, as stated, at the empty version string: the request with entity id \<open>|\<close> and no
  version and the request with the empty entity id and the empty version derive different
  keys, because an empty version is left out of the key like an absent one.
\<close>

theorem make_key_collision_counterexample:
  "make_key ([] @ ''|'' @ []) None None \<noteq> make_key [] None (Some [])"
  by (simp add: make_key_def key_str_def md5_hexdigest_empty md5_hexdigest_bar)

text \<open>
  C10, amended. The cache key is not injective: for every entity \<open>e\<close> and every non-empty
  version \<open>v\<close>, the request for entity \<open>e|v\<close> with no feature names and no version and
  the request for entity \<open>e\<close> with no feature names and version \<open>v\<close> are two different
  requests with the same key.
\<close>

theorem make_key_collision:
  "v \<noteq> [] \<Longrightarrow>
     make_key (e @ ''|'' @ v) None None = make_key e None (Some v)
     \<and> (e @ ''|'' @ v, None :: string list option, None :: string option) \<noteq> (e, None, Some v)"
  by (simp add: make_key_def key_str_def)

theorem make_key_collision_witness:
  "''v1'' \<noteq> []
   \<and> make_key (''u'' @ ''|'' @ ''v1'') None None = make_key ''u'' None (Some ''v1'')
   \<and> (''u'' @ ''|'' @ ''v1'', None :: string list option, None :: string option)
       \<noteq> (''u'', None, Some ''v1'')"
proof -
  have h: "''v1'' \<noteq> []" by simp
  from make_key_collision [OF h, of "''u''"] h show ?thesis by blast
qed

section \<open>Schema validation\<close>

lemma validate_missing:
  assumes "set (schema_required schema) - set (columns df) \<noteq> {}"
  shows "validate_raw_data_schema df schema
           = Inl (MissingRequiredColumns (set (schema_required schema) - set (columns df)))"
  using assms by (simp add: validate_raw_data_schema_def Let_def)

lemma build_frame_exec_logic [simp]:
  "build_frame (L\<lparr>exec_logic := ex\<rparr>) request = build_frame L request"
  by (simp add: build_frame_def)

lemma compute_feature_version_schema_error:
  assumes feature: "find (\<lambda>f. f_id f = fid) (features (app_db st)) = Some feature"
    and fresh: "find (\<lambda>v. v_feature_id v = fid \<and> v_version v = cr_version request)
                  (versions (app_db st)) = None"
    and frame: "build_frame L request = Inr df"
    and table: "find (\<lambda>t. rt_id t = f_raw_table_id feature) (raw_tables (app_db st))
                  = Some raw_table"
    and invalid: "validate_raw_data_schema df (rt_schema_definition raw_table) = Inl e"
  shows "compute_feature_version L now fid request st
           = (Inl (HTTPException 400 (SchemaValidationFailed e)), st)"
  using assms by (simp add: compute_feature_version_def validate_and_compute_def)

text \<open>
  C4. When a required column is absent from the batch that is validated, validation fails
  with the one error that carries exactly the set of the missing columns, whatever the
  declared types say; and in \<open>compute_feature_version\<close> this happens before the
  transformation logic is executed: the request ends with the schema error and an unchanged
  state whatever executing the logic would do. The batch validated there is the frame
  after \<open>set_index\<close>, in which the entity id column is the index and not a column.
\<close>

theorem missing_columns_reported_first:
  "(set (schema_required schema) - set (columns df) \<noteq> {} \<longrightarrow>
      validate_raw_data_schema df schema
        = Inl (MissingRequiredColumns (set (schema_required schema) - set (columns df))))
   \<and> (find (\<lambda>f. f_id f = fid) (features (app_db st)) = Some feature
       \<and> find (\<lambda>v. v_feature_id v = fid \<and> v_version v = cr_version request)
             (versions (app_db st)) = None
       \<and> build_frame L request = Inr df
       \<and> find (\<lambda>t. rt_id t = f_raw_table_id feature) (raw_tables (app_db st)) = Some raw_table
       \<and> rt_schema_definition raw_table = schema
       \<and> set (schema_required schema) - set (columns df) \<noteq> {}
       \<longrightarrow> (\<forall>ex. compute_feature_version (L\<lparr>exec_logic := ex\<rparr>) now fid request st
                  = (Inl (HTTPException 400 (SchemaValidationFailed
                       (MissingRequiredColumns
                          (set (schema_required schema) - set (columns df))))), st)))"
proof (intro conjI impI allI)
  assume "set (schema_required schema) - set (columns df) \<noteq> {}"
  then show "validate_raw_data_schema df schema
        = Inl (MissingRequiredColumns (set (schema_required schema) - set (columns df)))"
    by (rule validate_missing)
next
  fix ex
  assume a: "find (\<lambda>f. f_id f = fid) (features (app_db st)) = Some feature
       \<and> find (\<lambda>v. v_feature_id v = fid \<and> v_version v = cr_version request)
             (versions (app_db st)) = None
       \<and> build_frame L request = Inr df
       \<and> find (\<lambda>t. rt_id t = f_raw_table_id feature) (raw_tables (app_db st)) = Some raw_table
       \<and> rt_schema_definition raw_table = schema
       \<and> set (schema_required schema) - set (columns df) \<noteq> {}"
  from a have feature: "find (\<lambda>f. f_id f = fid) (features (app_db st)) = Some feature"
    and fresh: "find (\<lambda>v. v_feature_id v = fid \<and> v_version v = cr_version request)
                  (versions (app_db st)) = None"
    and table: "find (\<lambda>t. rt_id t = f_raw_table_id feature) (raw_tables (app_db st))
                  = Some raw_table"
    by simp_all
  from a have invalid: "validate_raw_data_schema df (rt_schema_definition raw_table)
        = Inl (MissingRequiredColumns (set (schema_required schema) - set (columns df)))"
    using validate_missing [of schema df] by simp
  from a have frame: "build_frame (L\<lparr>exec_logic := ex\<rparr>) request = Inr df"
    by simp
  show "compute_feature_version (L\<lparr>exec_logic := ex\<rparr>) now fid request st
          = (Inl (HTTPException 400 (SchemaValidationFailed
               (MissingRequiredColumns (set (schema_required schema) - set (columns df))))), st)"
    by (rule compute_feature_version_schema_error [OF feature fresh frame table invalid])
qed

lemma short_frame_built:
  "build_frame sample_lib short_request
     = Inr \<lparr>df_index = [PStr ''x''], df_columns = []\<rparr>"
  by (simp add: build_frame_def sample_lib_def sample_DataFrame_def short_request_def
      short_records_def sample_records_def short_frame_def get_column_def set_index_def)

theorem missing_columns_reported_first_witness:
  "validate_raw_data_schema \<lparr>df_index = [PStr ''x''], df_columns = []\<rparr> sample_schema
     = Inl (MissingRequiredColumns {''amount''})
   \<and> compute_feature sample_lib \<lparr>df_index = [PStr ''x''], df_columns = []\<rparr> unfinished_logic
     = Inl (ComputationError (LogicRaised syntax_error))
   \<and> compute_feature_version sample_lib 100 4 short_request sample_state
     = (Inl (HTTPException 400 (SchemaValidationFailed (MissingRequiredColumns {''amount''}))),
        sample_state)"
proof -
  let ?df = "\<lparr>df_index = [PStr ''x''], df_columns = []\<rparr>"
  let ?feature = "\<lparr>f_id = 4, f_name = ''broken'', f_raw_table_id = 1,
                   f_computation_logic = unfinished_logic\<rparr>"
  let ?table = "\<lparr>rt_id = 1, rt_name = ''payments'', rt_schema_definition = sample_schema\<rparr>"
  have missing: "set (schema_required sample_schema) - set (columns ?df) = {''amount''}"
    by (simp add: schema_required_def sample_schema_def columns_def)
  have feature: "find (\<lambda>f. f_id f = 4) (features (app_db sample_state)) = Some ?feature"
    by (simp add: sample_state_def sample_db_def)
  have fresh: "find (\<lambda>v. v_feature_id v = 4 \<and> v_version v = cr_version short_request)
                 (versions (app_db sample_state)) = None"
    by (simp add: sample_state_def sample_db_def)
  have table: "find (\<lambda>t. rt_id t = f_raw_table_id ?feature) (raw_tables (app_db sample_state))
                 = Some ?table"
    by (simp add: sample_state_def sample_db_def)
  have lib: "sample_lib\<lparr>exec_logic := sample_exec\<rparr> = sample_lib"
    by (simp add: sample_lib_def)
  have fails: "compute_feature sample_lib ?df unfinished_logic
                 = Inl (ComputationError (LogicRaised syntax_error))"
    by (simp add: compute_feature_def sample_lib_def sample_exec_def sum_logic_def
        sets_logic_def exit_logic_def no_result_logic_def unfinished_logic_def)
  from missing_columns_reported_first
         [of sample_schema ?df 4 sample_state ?feature short_request sample_lib ?table 100]
       missing feature fresh table short_frame_built
  have "validate_raw_data_schema ?df sample_schema = Inl (MissingRequiredColumns {''amount''})
        \<and> compute_feature_version (sample_lib\<lparr>exec_logic := sample_exec\<rparr>) 100 4 short_request
              sample_state
            = (Inl (HTTPException 400 (SchemaValidationFailed
                  (MissingRequiredColumns {''amount''}))), sample_state)"
    by simp
  with lib fails show ?thesis by simp
qed

lemma string_or_object_dtype:
  "is_string_dtype c \<or> is_object_dtype (col_dtype c)
     \<longleftrightarrow> col_dtype c = StringDtype \<or> col_dtype c = Object"
  by (cases "col_dtype c") (simp_all add: is_string_dtype_def)

lemma check_column_types_None_iff:
  "check_column_types df ts = None \<longleftrightarrow>
     (\<forall>(col, ty) \<in> set ts. \<forall>c. get_column df col = Some c \<longrightarrow>
        (ty = ''numeric'' \<longrightarrow> is_numeric_dtype (col_dtype c))
        \<and> (ty = ''string'' \<longrightarrow> col_dtype c = StringDtype \<or> col_dtype c = Object))"
proof (induction ts)
  case Nil
  show ?case by simp
next
  case (Cons t ts)
  obtain col ty where t: "t = (col, ty)" by (cases t)
  show ?case
  proof (cases "get_column df col")
    case None
    with Cons t show ?thesis by simp
  next
    case (Some c)
    have so: "(\<not> is_string_dtype c \<and> \<not> is_object_dtype (col_dtype c))
                \<longleftrightarrow> \<not> (col_dtype c = StringDtype \<or> col_dtype c = Object)"
      using string_or_object_dtype [of c] by blast
    consider (num) "ty = ''numeric''" | (str) "ty = ''string''"
      | (other) "ty \<noteq> ''numeric''" "ty \<noteq> ''string''"
      by blast
    then show ?thesis
    proof cases
      case num
      with Cons t Some show ?thesis by auto
    next
      case str
      with Cons t Some so show ?thesis by auto
    next
      case other
      with Cons t Some show ?thesis by auto
    qed
  qed
qed

lemma check_column_types_Some:
  assumes "check_column_types df ts = Some e"
  shows "\<exists>col c. get_column df col = Some c
           \<and> ((col, ''numeric'') \<in> set ts \<and> \<not> is_numeric_dtype (col_dtype c)
                 \<and> e = ExpectedNumeric col (col_dtype c)
               \<or> (col, ''string'') \<in> set ts \<and> col_dtype c \<noteq> StringDtype
                 \<and> col_dtype c \<noteq> Object \<and> e = ExpectedString col (col_dtype c))"
  using assms
proof (induction ts)
  case Nil
  then show ?case by simp
next
  case (Cons t ts)
  obtain col ty where t: "t = (col, ty)" by (cases t)
  show ?case
  proof (cases "check_column_types df ts = Some e")
    case True
    with Cons.IH show ?thesis by auto
  next
    case False
    with Cons.prems t obtain c where c: "get_column df col = Some c"
      by (cases "get_column df col") auto
    have so: "(\<not> is_string_dtype c \<and> \<not> is_object_dtype (col_dtype c))
                \<longleftrightarrow> \<not> (col_dtype c = StringDtype \<or> col_dtype c = Object)"
      using string_or_object_dtype [of c] by blast
    from Cons.prems t c False
    have "(ty = ''numeric'' \<and> \<not> is_numeric_dtype (col_dtype c)
             \<and> e = ExpectedNumeric col (col_dtype c))
          \<or> (ty = ''string'' \<and> \<not> is_string_dtype c \<and> \<not> is_object_dtype (col_dtype c)
             \<and> e = ExpectedString col (col_dtype c))"
      by (auto split: if_splits)
    with so t c show ?thesis by auto
  qed
qed

text \<open>
  C5, as stated, at a column of numeric texts: every present value of the column is
  numeric-coercible in the spec's sense, and validation against \<open>numeric\<close> fails, because
  the column's dtype is \<open>object\<close>.
\<close>

theorem numeric_coercible_counterexample:
  "spec_numeric_column amount_text_column
   \<and> get_column text_frame ''amount'' = Some amount_text_column
   \<and> validate_raw_data_schema text_frame sample_schema = Inl (ExpectedNumeric ''amount'' Object)"
  by (simp add: spec_numeric_column_def amount_text_column_def digits_text_def text_frame_def
      get_column_def validate_raw_data_schema_def Let_def schema_required_def schema_types_def
      sample_schema_def columns_def)

text \<open>
  C5, amended. With no required column missing, validation passes exactly when every
  column that has a declared type and is present in the batch conforms by its dtype: a
  \<open>numeric\<close> column when its dtype is numeric (integer, float or boolean), a \<open>string\<close>
  column when its dtype is string or object, whatever the values are; a declared type
  other than these two is not checked. Otherwise validation fails with the error of a
  non-conforming column, which names the column and its dtype.
\<close>

theorem column_types_checked_by_dtype:
  assumes "set (schema_required schema) \<subseteq> set (columns df)"
  shows "(validate_raw_data_schema df schema = Inr True \<longleftrightarrow>
            (\<forall>(col, ty) \<in> set (schema_types schema). \<forall>c. get_column df col = Some c \<longrightarrow>
               (ty = ''numeric'' \<longrightarrow> is_numeric_dtype (col_dtype c))
               \<and> (ty = ''string'' \<longrightarrow> col_dtype c = StringDtype \<or> col_dtype c = Object)))
         \<and> (\<forall>e. validate_raw_data_schema df schema = Inl e \<longrightarrow>
              (\<exists>col c. get_column df col = Some c
                 \<and> ((col, ''numeric'') \<in> set (schema_types schema)
                       \<and> \<not> is_numeric_dtype (col_dtype c)
                       \<and> e = ExpectedNumeric col (col_dtype c)
                     \<or> (col, ''string'') \<in> set (schema_types schema)
                       \<and> col_dtype c \<noteq> StringDtype \<and> col_dtype c \<noteq> Object
                       \<and> e = ExpectedString col (col_dtype c))))
         \<and> (validate_raw_data_schema df schema = Inr True
              \<or> (\<exists>e. validate_raw_data_schema df schema = Inl e))"
proof -
  from assms have nomiss: "set (schema_required schema) - set (columns df) = {}" by blast
  have v: "validate_raw_data_schema df schema
             = (case check_column_types df (schema_types schema) of
                  Some e \<Rightarrow> Inl e | None \<Rightarrow> Inr True)"
    using nomiss by (simp add: validate_raw_data_schema_def Let_def)
  have a: "validate_raw_data_schema df schema = Inr True
             \<longleftrightarrow> check_column_types df (schema_types schema) = None"
    by (simp add: v split: option.splits)
  have b: "validate_raw_data_schema df schema = Inl e
             \<longleftrightarrow> check_column_types df (schema_types schema) = Some e" for e
    by (simp add: v split: option.splits)
  have c: "validate_raw_data_schema df schema = Inr True
             \<or> (\<exists>e. validate_raw_data_schema df schema = Inl e)"
    by (simp add: v split: option.splits)
  show ?thesis
    unfolding a b using c check_column_types_None_iff [of df "schema_types schema"]
      check_column_types_Some [of df "schema_types schema"]
    unfolding a b by blast
qed

theorem column_types_checked_by_dtype_witness:
  "set (schema_required sample_schema) \<subseteq> set (columns (set_index sample_frame (hd (df_columns sample_frame))))
   \<and> validate_raw_data_schema (set_index sample_frame (hd (df_columns sample_frame))) sample_schema
       = Inr True
   \<and> set (schema_required sample_schema) \<subseteq> set (columns text_frame)
   \<and> validate_raw_data_schema text_frame sample_schema \<noteq> Inr True"
proof -
  let ?df = "set_index sample_frame (hd (df_columns sample_frame))"
  have cols: "df_columns ?df
                = [\<lparr>col_name = ''amount'', col_dtype = Int64, col_cells = [PInt 5, PInt 7]\<rparr>]"
    by (simp add: set_index_def sample_frame_def)
  have h1: "set (schema_required sample_schema) \<subseteq> set (columns ?df)"
    by (simp add: schema_required_def sample_schema_def columns_def cols)
  have h2: "set (schema_required sample_schema) \<subseteq> set (columns text_frame)"
    by (simp add: schema_required_def sample_schema_def columns_def text_frame_def
        amount_text_column_def)
  have g1: "get_column ?df col = Some c \<Longrightarrow> col = ''amount'' \<Longrightarrow> is_numeric_dtype (col_dtype c)"
    for col c
    by (auto simp: get_column_def cols)
  from column_types_checked_by_dtype [OF h1] g1
  have r1: "validate_raw_data_schema ?df sample_schema = Inr True"
    by (simp add: schema_types_def sample_schema_def)
  have g2: "get_column text_frame ''amount'' = Some amount_text_column"
    by (simp add: get_column_def text_frame_def amount_text_column_def)
  have "\<not> is_numeric_dtype (col_dtype amount_text_column)"
    by (simp add: amount_text_column_def)
  with column_types_checked_by_dtype [OF h2] g2
  have r2: "validate_raw_data_schema text_frame sample_schema \<noteq> Inr True"
    by (auto simp: schema_types_def sample_schema_def)
  from h1 r1 h2 r2 show ?thesis by simp
qed

section \<open>Latest-version resolution\<close>

lemma sort_key_first_least:
  fixes f :: "'a \<Rightarrow> int"
  assumes "sort_key f xs = y # ys" and "x \<in> set xs"
  shows "f y \<le> f x"
proof -
  have "sorted (map f (sort_key f xs))" by simp
  with assms(1) have "\<forall>z \<in> set ys. f y \<le> f z" by simp
  moreover have "x \<in> set (sort_key f xs)" using assms(2) by simp
  ultimately show ?thesis using assms(1) by auto
qed

lemma sort_key_Nil_iff: "sort_key f xs = [] \<longleftrightarrow> xs = []"
  by (metis length_0_conv length_sort)

lemma latest_active_version_None_iff:
  "latest_active_version db fid = None \<longleftrightarrow>
     (\<forall>v \<in> set (versions db). v_feature_id v = fid \<longrightarrow> v_status v \<noteq> ''active'')"
proof -
  let ?act = "filter (\<lambda>v. v_feature_id v = fid \<and> v_status v = ''active'') (versions db)"
  have "latest_active_version db fid = None \<longleftrightarrow> sort_key (\<lambda>v. - v_computed_at v) ?act = []"
    by (simp add: latest_active_version_def split: list.splits)
  also have "\<dots> \<longleftrightarrow> ?act = []" by (rule sort_key_Nil_iff)
  also have "\<dots> \<longleftrightarrow> (\<forall>v \<in> set (versions db). v_feature_id v = fid \<longrightarrow> v_status v \<noteq> ''active'')"
    by (auto simp: filter_empty_conv)
  finally show ?thesis .
qed

lemma latest_active_version_Some:
  assumes "latest_active_version db fid = Some v"
  shows "v \<in> set (versions db) \<and> v_feature_id v = fid \<and> v_status v = ''active''
         \<and> (\<forall>v' \<in> set (versions db). v_feature_id v' = fid \<and> v_status v' = ''active''
               \<longrightarrow> v_computed_at v' \<le> v_computed_at v)"
proof -
  let ?act = "filter (\<lambda>v. v_feature_id v = fid \<and> v_status v = ''active'') (versions db)"
  from assms obtain vs where s: "sort_key (\<lambda>v. - v_computed_at v) ?act = v # vs"
    by (auto simp: latest_active_version_def split: list.splits)
  then have "v \<in> set (sort_key (\<lambda>v. - v_computed_at v) ?act)" by simp
  then have mem: "v \<in> set ?act" by simp
  have "v_computed_at v' \<le> v_computed_at v" if "v' \<in> set ?act" for v'
    using sort_key_first_least [OF s that] by simp
  with mem show ?thesis by auto
qed

lemma latest_results_iff:
  "(fv, v, f) \<in> set (latest_results db e fs) \<longleftrightarrow>
     f \<in> set fs \<and> latest_active_version db (f_id f) = Some v
     \<and> value_for db (v_id v) e = Some fv"
  by (induction fs) (auto split: option.splits)

lemma latest_of_two:
  assumes two: "filter (\<lambda>v. v_feature_id v = fid) (versions db) = [v1, v2]"
    and active1: "v_status v1 = ''active''"
    and newer: "v_computed_at v1 < v_computed_at v2"
  shows "latest_active_version db fid = Some (if v_status v2 = ''active'' then v2 else v1)"
proof -
  have "filter (\<lambda>v. v_feature_id v = fid \<and> v_status v = ''active'') (versions db)
          = filter (\<lambda>v. v_status v = ''active'') (filter (\<lambda>v. v_feature_id v = fid) (versions db))"
    by (simp add: conj_commute)
  also have "\<dots> = (if v_status v2 = ''active'' then [v1, v2] else [v1])"
    using two active1 by simp
  finally show ?thesis
    using newer by (simp add: latest_active_version_def)
qed

text \<open>
  C2. With no explicit version, resolution looks for each feature at its versions of
  status \<open>active\<close> only, takes one whose \<open>computed_at\<close> is greatest among them, and
  contributes the value stored for the entity under that version; a feature with no
  active version contributes nothing. For a feature whose versions are \<open>v1\<close> and \<open>v2\<close>
  with \<open>v1\<close> active and \<open>v2\<close> computed later, the version resolved is \<open>v2\<close> when
  \<open>v2\<close> is active and \<open>v1\<close> when it is not.
\<close>

theorem latest_version_resolution:
  "(latest_active_version db fid = None \<longleftrightarrow>
      (\<forall>v \<in> set (versions db). v_feature_id v = fid \<longrightarrow> v_status v \<noteq> ''active''))
   \<and> (\<forall>v. latest_active_version db fid = Some v \<longrightarrow>
          v \<in> set (versions db) \<and> v_feature_id v = fid \<and> v_status v = ''active''
          \<and> (\<forall>v' \<in> set (versions db). v_feature_id v' = fid \<and> v_status v' = ''active''
                \<longrightarrow> v_computed_at v' \<le> v_computed_at v))
   \<and> (\<forall>fv v f. (fv, v, f) \<in> set (latest_results db e fs) \<longleftrightarrow>
          f \<in> set fs \<and> latest_active_version db (f_id f) = Some v
          \<and> value_for db (v_id v) e = Some fv)
   \<and> (\<forall>v1 v2. filter (\<lambda>v. v_feature_id v = fid) (versions db) = [v1, v2]
          \<and> v_status v1 = ''active'' \<and> v_computed_at v1 < v_computed_at v2 \<longrightarrow>
          latest_active_version db fid = Some (if v_status v2 = ''active'' then v2 else v1))"
  using latest_active_version_None_iff [of db fid] latest_active_version_Some [of db fid]
    latest_results_iff [of _ _ _ db e fs] latest_of_two [of fid db]
  by blast

theorem latest_version_resolution_witness:
  "latest_active_version (versioned_db ''active'') 1 = Some (version_2 ''active'')
   \<and> (value_2, version_2 ''active'', total_feature)
       \<in> set (latest_results (versioned_db ''active'') ''x'' [total_feature])
   \<and> latest_active_version (versioned_db ''deprecated'') 1 = Some version_1
   \<and> (value_1, version_1, total_feature)
       \<in> set (latest_results (versioned_db ''deprecated'') ''x'' [total_feature])"
proof -
  have two: "filter (\<lambda>v. v_feature_id v = 1) (versions (versioned_db st))
               = [version_1, version_2 st]" for st
    by (simp add: versioned_db_def version_1_def version_2_def)
  have active1: "v_status version_1 = ''active''"
    by (simp add: version_1_def)
  have newer: "v_computed_at version_1 < v_computed_at (version_2 st)" for st
    by (simp add: version_1_def version_2_def)
  have st2: "v_status (version_2 st) = st" for st
    by (simp add: version_2_def)
  note scenario = latest_version_resolution
      [THEN conjunct2, THEN conjunct2, THEN conjunct2, rule_format]
  note contributes = latest_version_resolution
      [THEN conjunct2, THEN conjunct2, THEN conjunct1, rule_format, THEN iffD2]
  have l2: "latest_active_version (versioned_db ''active'') 1 = Some (version_2 ''active'')"
    using scenario [OF conjI [OF two conjI [OF active1 newer]], of "''active''"]
    by (simp add: st2)
  have l1: "latest_active_version (versioned_db ''deprecated'') 1 = Some version_1"
    using scenario [OF conjI [OF two conjI [OF active1 newer]], of "''deprecated''"]
    by (simp add: st2)
  have val2: "value_for (versioned_db st) (v_id (version_2 st)) ''x'' = Some value_2" for st
    by (simp add: value_for_def versioned_db_def version_2_def value_1_def value_2_def)
  have val1: "value_for (versioned_db st) (v_id version_1) ''x'' = Some value_1" for st
    by (simp add: value_for_def versioned_db_def version_1_def value_1_def value_2_def)
  have fid: "f_id total_feature = 1"
    by (simp add: total_feature_def)
  have r2: "(value_2, version_2 ''active'', total_feature)
              \<in> set (latest_results (versioned_db ''active'') ''x'' [total_feature])"
    using l2 val2 [of "''active''"] fid by (intro contributes) simp
  have r1: "(value_1, version_1, total_feature)
              \<in> set (latest_results (versioned_db ''deprecated'') ''x'' [total_feature])"
    using l1 val1 [of "''deprecated''"] fid by (intro contributes) simp
  from l2 r2 l1 r1 show ?thesis by simp
qed

section \<open>Resolving a vector\<close>

lemma dict_set_keys: "fst ` set (dict_set k v d) = insert k (fst ` set d)"
proof (induction d)
  case Nil
  show ?case by simp
next
  case (Cons p d)
  obtain k' v' where p: "p = (k', v')" by (cases p)
  show ?case
  proof (cases "k' = k")
    case True
    then show ?thesis by (simp add: p)
  next
    case False
    then show ?thesis using Cons.IH by (simp add: p insert_commute)
  qed
qed

lemma fold_dict_set_keys:
  "fst ` set (fold (\<lambda>(fv, ver, f) vec. dict_set (f_name f) (g fv) vec) rs acc)
     = fst ` set acc \<union> (\<lambda>(fv, ver, f). f_name f) ` set rs"
proof (induction rs arbitrary: acc)
  case Nil
  show ?case by simp
next
  case (Cons r rs)
  obtain fv ver f where r: "r = (fv, ver, f)" by (cases r)
  show ?case by (simp add: r Cons.IH dict_set_keys)
qed

lemma build_vector_keys:
  "fst ` set (build_vector L rs) = (\<lambda>(fv, ver, f). f_name f) ` set rs"
  unfolding build_vector_def by (simp add: fold_dict_set_keys)

lemma build_vector_not_empty: "rs \<noteq> [] \<Longrightarrow> build_vector L rs \<noteq> []"
proof
  assume "rs \<noteq> []" and "build_vector L rs = []"
  then have "(\<lambda>(fv, ver, f). f_name f) ` set rs = {}"
    using build_vector_keys [of L rs] by simp
  with \<open>rs \<noteq> []\<close> show False by simp
qed

lemma latest_results_names:
  "(\<lambda>(fv, ver, f). f_name f) ` set (latest_results db e fs)
     = {f_name f | f. f \<in> set fs
          \<and> (\<exists>v fv. latest_active_version db (f_id f) = Some v
                \<and> value_for db (v_id v) e = Some fv)}"
proof -
  have "x \<in> set (latest_results db e fs) \<longleftrightarrow>
          (case x of (fv, v, f) \<Rightarrow> f \<in> set fs \<and> latest_active_version db (f_id f) = Some v
             \<and> value_for db (v_id v) e = Some fv)" for x
    by (cases x) (simp add: latest_results_iff)
  then show ?thesis by (auto simp: image_iff split: prod.splits) force
qed

lemma resolve_results_latest:
  assumes "rq_version request = None \<or> rq_version request = Some []"
  shows "resolve_results request db
           = latest_results db (rq_entity_id request)
               (named_features (rq_feature_names request) (features db))"
  using assms by (auto simp: resolve_results_def)

lemma get_feature_vector_miss:
  assumes "fst (cache_get now (rq_entity_id request) (rq_feature_names request)
                  (rq_version request) (app_cache st)) = None"
  shows "fst (get_feature_vector L now request st)
           = (case resolve_results request (app_db st) of
                [] \<Rightarrow> Inl (HTTPException 404 (NoFeatureVectors (rq_entity_id request)))
              | r # rs \<Rightarrow>
                  Inr \<lparr>rs_entity_id = rq_entity_id request,
                       rs_features = build_vector L (r # rs), rs_retrieved_at = now\<rparr>)"
proof -
  obtain c where "cache_get now (rq_entity_id request) (rq_feature_names request)
                    (rq_version request) (app_cache st) = (None, c)"
    using assms by (metis prod.collapse)
  then show ?thesis
    by (simp add: get_feature_vector_def Let_def split: list.splits)
qed

text \<open>
  C8. On a cache miss with no explicit version, the request fails with \<open>NotFound\<close>
  exactly when the result set is empty, that is when no requested feature has an active
  version with a value for the entity; otherwise it succeeds, and the vector returned has
  an entry for exactly the names of the features that have one: a feature without an
  active version or without a value for the entity is left out and causes no failure.
\<close>

theorem resolve_not_found_iff:
  assumes miss: "fst (cache_get now (rq_entity_id request) (rq_feature_names request)
                        (rq_version request) (app_cache st)) = None"
    and latest: "rq_version request = None \<or> rq_version request = Some []"
  shows "(fst (get_feature_vector L now request st)
            = Inl (HTTPException 404 (NoFeatureVectors (rq_entity_id request)))
          \<longleftrightarrow> latest_results (app_db st) (rq_entity_id request)
                (named_features (rq_feature_names request) (features (app_db st))) = [])
         \<and> (latest_results (app_db st) (rq_entity_id request)
               (named_features (rq_feature_names request) (features (app_db st))) = []
             \<longleftrightarrow> (\<forall>f \<in> set (named_features (rq_feature_names request) (features (app_db st))).
                    \<forall>v. latest_active_version (app_db st) (f_id f) = Some v
                      \<longrightarrow> value_for (app_db st) (v_id v) (rq_entity_id request) = None))
         \<and> (latest_results (app_db st) (rq_entity_id request)
               (named_features (rq_feature_names request) (features (app_db st))) \<noteq> []
             \<longrightarrow> (\<exists>response. fst (get_feature_vector L now request st) = Inr response
                    \<and> rs_entity_id response = rq_entity_id request
                    \<and> fst ` set (rs_features response)
                        = {f_name f | f.
                             f \<in> set (named_features (rq_feature_names request)
                                        (features (app_db st)))
                             \<and> (\<exists>v fv. latest_active_version (app_db st) (f_id f) = Some v
                                   \<and> value_for (app_db st) (v_id v) (rq_entity_id request)
                                       = Some fv)}))"
proof -
  let ?fs = "named_features (rq_feature_names request) (features (app_db st))"
  let ?rs = "latest_results (app_db st) (rq_entity_id request) ?fs"
  have res: "resolve_results request (app_db st) = ?rs"
    using latest by (rule resolve_results_latest)
  have out: "fst (get_feature_vector L now request st)
           = (case ?rs of
                [] \<Rightarrow> Inl (HTTPException 404 (NoFeatureVectors (rq_entity_id request)))
              | r # rs \<Rightarrow>
                  Inr \<lparr>rs_entity_id = rq_entity_id request,
                       rs_features = build_vector L (r # rs), rs_retrieved_at = now\<rparr>)"
    using get_feature_vector_miss [OF miss, of L] by (simp add: res)
  have a: "fst (get_feature_vector L now request st)
            = Inl (HTTPException 404 (NoFeatureVectors (rq_entity_id request)))
          \<longleftrightarrow> ?rs = []"
    by (simp add: out split: list.splits)
  have b: "?rs = [] \<longleftrightarrow> (\<forall>f \<in> set ?fs. \<forall>v. latest_active_version (app_db st) (f_id f) = Some v
                      \<longrightarrow> value_for (app_db st) (v_id v) (rq_entity_id request) = None)"
  proof
    assume empty: "?rs = []"
    show "\<forall>f \<in> set ?fs. \<forall>v. latest_active_version (app_db st) (f_id f) = Some v
                      \<longrightarrow> value_for (app_db st) (v_id v) (rq_entity_id request) = None"
    proof (intro ballI allI impI)
      fix f v
      assume f: "f \<in> set ?fs" and v: "latest_active_version (app_db st) (f_id f) = Some v"
      show "value_for (app_db st) (v_id v) (rq_entity_id request) = None"
      proof (rule ccontr)
        assume "value_for (app_db st) (v_id v) (rq_entity_id request) \<noteq> None"
        then obtain fv where "value_for (app_db st) (v_id v) (rq_entity_id request) = Some fv"
          by auto
        with f v have "(fv, v, f) \<in> set ?rs" by (simp add: latest_results_iff)
        with empty show False by simp
      qed
    qed
  next
    assume none: "\<forall>f \<in> set ?fs. \<forall>v. latest_active_version (app_db st) (f_id f) = Some v
                      \<longrightarrow> value_for (app_db st) (v_id v) (rq_entity_id request) = None"
    show "?rs = []"
    proof (rule ccontr)
      assume "?rs \<noteq> []"
      then obtain x xs where "?rs = x # xs" by (cases ?rs) auto
      then have x: "x \<in> set ?rs" by simp
      obtain fv v f where "x = (fv, v, f)" by (cases x)
      with x have "f \<in> set ?fs" "latest_active_version (app_db st) (f_id f) = Some v"
        "value_for (app_db st) (v_id v) (rq_entity_id request) = Some fv"
        by (simp_all add: latest_results_iff)
      with none show False by auto
    qed
  qed
  have c: "\<exists>response. fst (get_feature_vector L now request st) = Inr response
                    \<and> rs_entity_id response = rq_entity_id request
                    \<and> fst ` set (rs_features response)
                        = {f_name f | f. f \<in> set ?fs
                             \<and> (\<exists>v fv. latest_active_version (app_db st) (f_id f) = Some v
                                   \<and> value_for (app_db st) (v_id v) (rq_entity_id request)
                                       = Some fv)}"
    if "?rs \<noteq> []"
  proof -
    from that obtain r rs where rs: "?rs = r # rs" by (cases ?rs) auto
    have "fst (get_feature_vector L now request st)
            = Inr \<lparr>rs_entity_id = rq_entity_id request,
                   rs_features = build_vector L ?rs, rs_retrieved_at = now\<rparr>"
      using out rs by simp
    moreover have "fst ` set (build_vector L ?rs)
                     = {f_name f | f. f \<in> set ?fs
                             \<and> (\<exists>v fv. latest_active_version (app_db st) (f_id f) = Some v
                                   \<and> value_for (app_db st) (v_id v) (rq_entity_id request)
                                       = Some fv)}"
      by (simp only: build_vector_keys latest_results_names)
    ultimately show ?thesis by simp
  qed
  from a b c show ?thesis by blast
qed

lemma served_latest_results:
  "latest_results (versioned_db ''active'') ''x'' (features (versioned_db ''active''))
     = [(value_2, version_2 ''active'', total_feature)]"
  "latest_results (versioned_db ''active'') ''nobody'' (features (versioned_db ''active'')) = []"
  by (simp_all add: latest_active_version_def versioned_db_def sample_db_def version_1_def
      version_2_def value_for_def value_1_def value_2_def total_feature_def)

lemma served_miss:
  "fst (cache_get now (rq_entity_id (request_for e)) (rq_feature_names (request_for e))
          (rq_version (request_for e)) (app_cache served_state)) = None"
  by (simp add: cache_get_def ttl_get_def served_state_def)

lemma served_vector:
  "fst (get_feature_vector sample_lib t (request_for ''x'') served_state)
     = Inr \<lparr>rs_entity_id = ''x'', rs_features = [(''total'', PInt 42)], rs_retrieved_at = t\<rparr>"
proof -
  have latest: "rq_version (request_for ''x'') = None \<or> rq_version (request_for ''x'') = Some []"
    by (simp add: request_for_def)
  have names: "named_features (rq_feature_names (request_for ''x'')) fs = fs" for fs
    by (simp add: request_for_def named_features_def)
  have db: "app_db served_state = versioned_db ''active''"
    by (simp add: served_state_def)
  have ent: "rq_entity_id (request_for ''x'') = ''x''"
    by (simp add: request_for_def)
  have "resolve_results (request_for ''x'') (app_db served_state)
          = [(value_2, version_2 ''active'', total_feature)]"
    by (simp only: resolve_results_latest [OF latest] names db ent served_latest_results)
  moreover have "build_vector sample_lib [(value_2, version_2 ''active'', total_feature)]
                   = [(''total'', PInt 42)]"
    by (simp add: build_vector_def decode_value_def sample_lib_def sample_loads_def json_a1_def
        value_2_def total_feature_def)
  ultimately show ?thesis
    using get_feature_vector_miss [OF served_miss [of t "''x''"], where L = sample_lib]
    by (simp add: ent)
qed

theorem resolve_not_found_iff_witness:
  "fst (get_feature_vector sample_lib 30 (request_for ''nobody'') served_state)
     = Inl (HTTPException 404 (NoFeatureVectors ''nobody''))
   \<and> fst (get_feature_vector sample_lib 30 (request_for ''x'') served_state)
     = Inr \<lparr>rs_entity_id = ''x'', rs_features = [(''total'', PInt 42)], rs_retrieved_at = 30\<rparr>"
proof -
  have latest: "rq_version (request_for e) = None \<or> rq_version (request_for e) = Some []" for e
    by (simp add: request_for_def)
  have names: "named_features (rq_feature_names (request_for e)) fs = fs" for e fs
    by (simp add: request_for_def named_features_def)
  have db: "app_db served_state = versioned_db ''active''"
    by (simp add: served_state_def)
  have ent: "rq_entity_id (request_for e) = e" for e
    by (simp add: request_for_def)
  have "latest_results (app_db served_state) (rq_entity_id (request_for ''nobody''))
          (named_features (rq_feature_names (request_for ''nobody''))
             (features (app_db served_state))) = []"
    by (simp only: names db ent served_latest_results)
  with resolve_not_found_iff
         [OF served_miss [of 30 "''nobody''"] latest [of "''nobody''"], where L = sample_lib]
  have r1: "fst (get_feature_vector sample_lib 30 (request_for ''nobody'') served_state)
              = Inl (HTTPException 404 (NoFeatureVectors ''nobody''))"
    by (simp only: ent)
  from r1 served_vector [of 30] show ?thesis by simp
qed

section \<open>The cache and new versions\<close>

lemma create_version_and_store_cache:
  "app_cache (snd (create_version_and_store L now fid request fvs st)) = app_cache st"
  by (simp add: create_version_and_store_def Let_def split: prod.splits option.splits)

lemma validate_and_compute_cache:
  "app_cache (snd (validate_and_compute L now fid request feature df st)) = app_cache st"
  by (simp add: validate_and_compute_def create_version_and_store_cache
      split: option.splits sum.splits exception.splits)

lemma compute_feature_version_cache:
  "app_cache (snd (compute_feature_version L now fid request st)) = app_cache st"
  by (simp add: compute_feature_version_def validate_and_compute_cache
      split: option.splits sum.splits)

lemma find_no_key:
  "find (\<lambda>e. ce_key e = k) (filter (\<lambda>e. ce_key e \<noteq> k) c @ [n])
     = (if ce_key n = k then Some n else None)"
  by (induction c) auto

lemma ttl_get_after_set:
  assumes "t < now + cache_ttl"
  shows "fst (ttl_get t k (ttl_set now k v c)) = Some v"
  using assms by (simp add: ttl_get_def ttl_set_def Let_def find_no_key)

lemma get_feature_vector_hit:
  assumes "fst (cache_get now (rq_entity_id request) (rq_feature_names request)
                  (rq_version request) (app_cache st)) = Some (kv # kvs)"
  shows "fst (get_feature_vector L now request st)
           = Inr \<lparr>rs_entity_id = rq_entity_id request, rs_features = kv # kvs,
                  rs_retrieved_at = now\<rparr>"
proof -
  obtain c where "cache_get now (rq_entity_id request) (rq_feature_names request)
                    (rq_version request) (app_cache st) = (Some (kv # kvs), c)"
    using assms by (metis prod.collapse)
  then show ?thesis by (simp add: get_feature_vector_def)
qed

lemma get_feature_vector_cached:
  assumes miss: "fst (cache_get t0 (rq_entity_id request) (rq_feature_names request)
                        (rq_version request) (app_cache st)) = None"
    and resolved: "get_feature_vector L t0 request st = (Inr response, st')"
  shows "rs_features response \<noteq> []
         \<and> rs_entity_id response = rq_entity_id request
         \<and> app_cache st'
             = cache_set t0 (rq_entity_id request) (rs_features response)
                 (rq_feature_names request) (rq_version request) (app_cache st)"
proof -
  have unchanged: "cache_get t0 (rq_entity_id request) (rq_feature_names request)
                    (rq_version request) (app_cache st) = (None, app_cache st)"
    using miss
    by (auto simp: cache_get_def ttl_get_def split: option.splits if_splits)
  from resolved obtain r rs where rs: "resolve_results request (app_db st) = r # rs"
    by (cases "resolve_results request (app_db st)")
       (auto simp: get_feature_vector_def unchanged)
  from resolved have "response = \<lparr>rs_entity_id = rq_entity_id request,
                         rs_features = build_vector L (r # rs), rs_retrieved_at = t0\<rparr>"
    and "st' = st\<lparr>app_cache := cache_set t0 (rq_entity_id request) (build_vector L (r # rs))
                           (rq_feature_names request) (rq_version request) (app_cache st)\<rparr>"
    by (auto simp: get_feature_vector_def unchanged rs Let_def)
  then show ?thesis
    using build_vector_not_empty [of "r # rs" L] by simp
qed

text \<open>
  C9. Computing a version never changes the vector cache, whatever the outcome of the
  computation. Hence a vector that was resolved from the store and cached at time
  \<open>t0\<close> is still the answer to the same request at any time before \<open>t0 + ttl\<close>, also
  after a version has been created in between: the answer is the cached vector and not
  what the store now holds.
\<close>

theorem cache_unchanged_by_compute:
  "app_cache (snd (compute_feature_version L1 t1 fid compute st)) = app_cache st
   \<and> (fst (cache_get t0 (rq_entity_id request) (rq_feature_names request)
             (rq_version request) (app_cache st)) = None
       \<and> get_feature_vector L t0 request st = (Inr response, st')
       \<and> t2 < t0 + cache_ttl
       \<longrightarrow> fst (get_feature_vector L2 t2 request
                   (snd (compute_feature_version L1 t1 fid compute st')))
             = Inr (response\<lparr>rs_retrieved_at := t2\<rparr>))"
proof (intro conjI impI)
  show "app_cache (snd (compute_feature_version L1 t1 fid compute st)) = app_cache st"
    by (rule compute_feature_version_cache)
next
  assume a: "fst (cache_get t0 (rq_entity_id request) (rq_feature_names request)
             (rq_version request) (app_cache st)) = None
       \<and> get_feature_vector L t0 request st = (Inr response, st')
       \<and> t2 < t0 + cache_ttl"
  let ?st2 = "snd (compute_feature_version L1 t1 fid compute st')"
  from a have cached: "rs_features response \<noteq> []"
    and ent: "rs_entity_id response = rq_entity_id request"
    and cache: "app_cache st'
             = cache_set t0 (rq_entity_id request) (rs_features response)
                 (rq_feature_names request) (rq_version request) (app_cache st)"
    using get_feature_vector_cached [of t0 request st L response st'] by simp_all
  from cached obtain kv kvs where vec: "rs_features response = kv # kvs"
    by (cases "rs_features response") auto
  have "app_cache ?st2 = app_cache st'"
    by (rule compute_feature_version_cache)
  with cache a have "fst (cache_get t2 (rq_entity_id request) (rq_feature_names request)
                  (rq_version request) (app_cache ?st2)) = Some (rs_features response)"
    by (simp add: cache_get_def cache_set_def ttl_get_after_set)
  then have "fst (get_feature_vector L2 t2 request ?st2)
           = Inr \<lparr>rs_entity_id = rq_entity_id request, rs_features = rs_features response,
                  rs_retrieved_at = t2\<rparr>"
    unfolding vec by (rule get_feature_vector_hit)
  also have "\<dots> = Inr (response\<lparr>rs_retrieved_at := t2\<rparr>)"
    using ent by simp
  finally show "fst (get_feature_vector L2 t2 request ?st2)
                  = Inr (response\<lparr>rs_retrieved_at := t2\<rparr>)" .
qed

lemma compute_feature_version_computed:
  assumes feature: "find (\<lambda>f. f_id f = fid) (features (app_db st)) = Some feature"
    and fresh: "find (\<lambda>v. v_feature_id v = fid \<and> v_version v = cr_version request)
                  (versions (app_db st)) = None"
    and frame: "build_frame L request = Inr df"
    and table: "find (\<lambda>t. rt_id t = f_raw_table_id feature) (raw_tables (app_db st))
                  = Some raw_table"
    and valid: "validate_raw_data_schema df (rt_schema_definition raw_table) = Inr ok"
    and computed: "compute_feature L df (f_computation_logic feature) = Inr fvs"
  shows "compute_feature_version L now fid request st
           = create_version_and_store L now fid request fvs st"
  using assms by (simp add: compute_feature_version_def validate_and_compute_def)

lemma sample_frame_built: "build_frame sample_lib third_request = Inr indexed_frame"
  by (simp add: build_frame_def sample_lib_def sample_DataFrame_def third_request_def
      sample_frame_def indexed_frame_def get_column_def set_index_def)

lemma sample_frame_valid: "validate_raw_data_schema indexed_frame sample_schema = Inr True"
  by (simp add: validate_raw_data_schema_def Let_def schema_required_def schema_types_def
      sample_schema_def columns_def get_column_def indexed_frame_def)

lemma sample_sum_computed:
  "compute_feature sample_lib indexed_frame sum_logic = Inr [(PStr ''x'', PInt 12)]"
  by (simp add: compute_feature_def sample_lib_def sample_exec_def no_result_logic_def
      exit_logic_def sum_logic_def sets_logic_def unfinished_logic_def)

lemma name_not_bound: "''FeatureValue'' \<notin> set compute_globals"
  by (simp add: compute_globals_def)

text \<open>
  The third version of \<open>total\<close> is created and committed, and storing its value fails:
  the store then holds \<open>v3\<close>, the newest active version, without a value.
\<close>

lemma third_version_created:
  "app_db (snd (compute_feature_version sample_lib 40 1 third_request
                  (served_state\<lparr>app_cache := c\<rparr>)))
     = (versioned_db ''active'')
         \<lparr>versions := [version_1, version_2 ''active'',
                       \<lparr>v_id = 3, v_feature_id = 1, v_version = ''v3'', v_status = ''active'',
                        v_computed_at = 40, v_metadata = None\<rparr>]\<rparr>"
proof -
  let ?st = "served_state\<lparr>app_cache := c\<rparr>"
  have feature: "find (\<lambda>f. f_id f = 1) (features (app_db ?st)) = Some total_feature"
    by (simp add: served_state_def versioned_db_def sample_db_def total_feature_def)
  have fresh: "find (\<lambda>v. v_feature_id v = 1 \<and> v_version v = cr_version third_request)
                 (versions (app_db ?st)) = None"
    by (simp add: served_state_def versioned_db_def version_1_def version_2_def
        third_request_def)
  have table: "find (\<lambda>t. rt_id t = f_raw_table_id total_feature) (raw_tables (app_db ?st))
                 = Some \<lparr>rt_id = 1, rt_name = ''payments'', rt_schema_definition = sample_schema\<rparr>"
    by (simp add: served_state_def versioned_db_def sample_db_def total_feature_def)
  have valid: "validate_raw_data_schema indexed_frame
     (rt_schema_definition
        \<lparr>rt_id = 1, rt_name = ''payments'', rt_schema_definition = sample_schema\<rparr>) = Inr True"
    using sample_frame_valid by simp
  have computed: "compute_feature sample_lib indexed_frame (f_computation_logic total_feature)
                    = Inr [(PStr ''x'', PInt 12)]"
    using sample_sum_computed by (simp add: total_feature_def)
  have ids: "next_id (map v_id (versions (versioned_db ''active''))) = 3"
    by (simp add: next_id_def versioned_db_def version_1_def version_2_def)
  have stored: "create_version_and_store sample_lib 40 1 third_request [(PStr ''x'', PInt 12)]
                  (served_state\<lparr>app_cache := c\<rparr>)
     = (Inl (HTTPException 500 (StoreFailed (NameError ''FeatureValue''))),
        served_state\<lparr>app_cache := c,
          app_db := (versioned_db ''active'')
         \<lparr>versions := [version_1, version_2 ''active'',
                       \<lparr>v_id = 3, v_feature_id = 1, v_version = ''v3'', v_status = ''active'',
                        v_computed_at = 40, v_metadata = None\<rparr>]\<rparr>\<rparr>)"
    by (simp add: create_version_and_store_def Let_def db_commit_def db_add_def db_rollback_def
        store_feature_values_def encode_value_def served_state_def third_request_def ids
        name_not_bound)
       (simp add: versioned_db_def)
  show ?thesis
    unfolding compute_feature_version_computed
      [OF feature fresh sample_frame_built table valid computed] stored
    by simp
qed

lemma get_feature_vector_state:
  "\<exists>c. snd (get_feature_vector L now request st) = st\<lparr>app_cache := c\<rparr>"
  by (auto simp: get_feature_vector_def Let_def split: prod.splits option.splits list.splits)

theorem cache_unchanged_by_compute_witness:
  "fst (get_feature_vector sample_lib 50 (request_for ''x'')
          (snd (compute_feature_version sample_lib 40 1 third_request
                  (snd (get_feature_vector sample_lib 30 (request_for ''x'') served_state)))))
     = Inr \<lparr>rs_entity_id = ''x'', rs_features = [(''total'', PInt 42)], rs_retrieved_at = 50\<rparr>
   \<and> latest_active_version
         (app_db (snd (compute_feature_version sample_lib 40 1 third_request
                  (snd (get_feature_vector sample_lib 30 (request_for ''x'') served_state)))))
         1
     = Some \<lparr>v_id = 3, v_feature_id = 1, v_version = ''v3'', v_status = ''active'',
              v_computed_at = 40, v_metadata = None\<rparr>
   \<and> latest_results
         (app_db (snd (compute_feature_version sample_lib 40 1 third_request
                  (snd (get_feature_vector sample_lib 30 (request_for ''x'') served_state)))))
         ''x'' [total_feature]
     = []"
proof -
  let ?response = "\<lparr>rs_entity_id = ''x'', rs_features = [(''total'', PInt 42)],
                     rs_retrieved_at = 30\<rparr>"
  let ?st' = "snd (get_feature_vector sample_lib 30 (request_for ''x'') served_state)"
  have resolved: "get_feature_vector sample_lib 30 (request_for ''x'') served_state
                    = (Inr ?response, ?st')"
    using served_vector [of 30] by (simp add: prod_eq_iff)
  have live: "(50::int) < 30 + cache_ttl"
    by (simp add: cache_ttl_def)
  from cache_unchanged_by_compute
         [THEN conjunct2, rule_format, OF conjI [OF served_miss conjI [OF resolved live]]]
  have r1: "fst (get_feature_vector L2 50 (request_for ''x'')
                   (snd (compute_feature_version L1 t1 fid compute ?st')))
              = Inr (?response\<lparr>rs_retrieved_at := 50\<rparr>)" for L2 L1 t1 fid compute .
  obtain c where st': "?st' = served_state\<lparr>app_cache := c\<rparr>"
    using get_feature_vector_state by blast
  have r2: "latest_active_version
         (app_db (snd (compute_feature_version sample_lib 40 1 third_request ?st'))) 1
     = Some \<lparr>v_id = 3, v_feature_id = 1, v_version = ''v3'', v_status = ''active'',
              v_computed_at = 40, v_metadata = None\<rparr>"
    unfolding st' third_version_created
    by (simp add: latest_active_version_def versioned_db_def version_1_def version_2_def)
  have r3: "latest_results
         (app_db (snd (compute_feature_version sample_lib 40 1 third_request ?st')))
         ''x'' [total_feature] = []"
    unfolding st' third_version_created
    by (simp add: latest_active_version_def versioned_db_def version_1_def version_2_def
        value_for_def value_1_def value_2_def total_feature_def)
  from r1 [of sample_lib sample_lib 40 1 third_request] r2 r3 show ?thesis by simp
qed

section \<open>A failed store\<close>

lemma add_feature_values_store:
  "store (snd (add_feature_values L vid fvs s)) = store s"
proof (induction fvs arbitrary: s)
  case Nil
  show ?case by simp
next
  case (Cons p fvs)
  obtain ent v where p: "p = (ent, v)" by (cases p)
  show ?case
    by (cases "encode_value L v") (simp_all add: p Cons.IH db_add_def)
qed

lemma store_feature_values_failed:
  assumes "store_feature_values L now vid fvs s = (Some e, s')"
  shows "store s' = store s"
proof -
  from assms have "add_feature_values L vid fvs s = (Some e, s')"
    by (auto simp: store_feature_values_def split: prod.splits option.splits)
  with add_feature_values_store [of L vid fvs s] show ?thesis by simp
qed

lemma fold_max_ge: "(a::nat) \<le> fold max ids a"
proof (induction ids arbitrary: a)
  case Nil
  show ?case by simp
next
  case (Cons i ids)
  have "a \<le> max i a" by simp
  also have "\<dots> \<le> fold max ids (max i a)" by (rule Cons.IH)
  finally show ?case by simp
qed

lemma fold_max_mem: "x \<in> set ids \<Longrightarrow> (x::nat) \<le> fold max ids a"
proof (induction ids arbitrary: a)
  case Nil
  then show ?case by simp
next
  case (Cons i ids)
  show ?case
  proof (cases "x = i")
    case True
    have "x \<le> max i a" using True by simp
    also have "\<dots> \<le> fold max ids (max i a)" by (rule fold_max_ge)
    finally show ?thesis by simp
  next
    case False
    with Cons.prems have "x \<in> set ids" by simp
    then show ?thesis using Cons.IH by simp
  qed
qed

lemma next_id_fresh: "x \<in> set ids \<Longrightarrow> x < next_id ids"
  using fold_max_mem [of x ids 0] by (simp add: next_id_def)

lemma create_version_and_store_failed:
  assumes "create_version_and_store L now fid request fvs st = (Inl err, st')"
  shows "versions (app_db st')
           = versions (app_db st)
               @ [\<lparr>v_id = next_id (map v_id (versions (app_db st))), v_feature_id = fid,
                   v_version = cr_version request, v_status = ''active'',
                   v_computed_at = now, v_metadata = cr_metadata request\<rparr>]
         \<and> fvalues (app_db st') = fvalues (app_db st)"
proof -
  let ?v = "\<lparr>v_id = next_id (map v_id (versions (app_db st))), v_feature_id = fid,
              v_version = cr_version request, v_status = ''active'',
              v_computed_at = now, v_metadata = cr_metadata request\<rparr>"
  let ?s1 = "db_commit now (db_add (NewVersion fid (cr_version request) ''active''
                                      (cr_metadata request))
                              \<lparr>store = app_db st, pending = []\<rparr>)"
  have s1: "store ?s1 = (app_db st)\<lparr>versions := versions (app_db st) @ [?v]\<rparr>"
    by (simp add: db_commit_def db_add_def)
  then have last: "last (versions (store ?s1)) = ?v" by simp
  from assms obtain e s2 where
    failed: "store_feature_values L now (v_id ?v) fvs ?s1 = (Some e, s2)"
    and st': "st' = st\<lparr>app_db := store (db_rollback s2)\<rparr>"
    unfolding create_version_and_store_def Let_def last
    by (auto split: prod.splits option.splits)
  from store_feature_values_failed [OF failed] have "store s2 = store ?s1" .
  with st' s1 show ?thesis by (simp add: db_rollback_def)
qed

lemma compute_feature_version_store_failed:
  assumes "compute_feature_version L now fid request st
             = (Inl (HTTPException 500 (StoreFailed e)), st')"
  shows "\<exists>fvs. create_version_and_store L now fid request fvs st
                 = (Inl (HTTPException 500 (StoreFailed e)), st')"
  using assms
  by (auto simp: compute_feature_version_def validate_and_compute_def
      split: option.splits sum.splits exception.splits)

text \<open>
  C1, on the code. When \<open>compute_feature_version\<close> ends with the failure of the value
  storage, the rollback has removed the values added so far and nothing else: the stored
  values are those from before the request, and the version created for the request is
  still in the store, active and, in a store whose values all belong to existing versions,
  without any value.
\<close>

theorem failed_store_leaves_version:
  assumes failed: "compute_feature_version L now fid request st
                     = (Inl (HTTPException 500 (StoreFailed e)), st')"
    and integrity: "\<forall>fv \<in> set (fvalues (app_db st)).
                      fv_feature_version_id fv \<in> v_id ` set (versions (app_db st))"
  shows "\<exists>v. versions (app_db st') = versions (app_db st) @ [v]
             \<and> v_feature_id v = fid \<and> v_version v = cr_version request
             \<and> v_status v = ''active''
             \<and> fvalues (app_db st') = fvalues (app_db st)
             \<and> (\<forall>fv \<in> set (fvalues (app_db st')). fv_feature_version_id fv \<noteq> v_id v)"
proof -
  let ?v = "\<lparr>v_id = next_id (map v_id (versions (app_db st))), v_feature_id = fid,
              v_version = cr_version request, v_status = ''active'',
              v_computed_at = now, v_metadata = cr_metadata request\<rparr>"
  from compute_feature_version_store_failed [OF failed] obtain fvs where
    "create_version_and_store L now fid request fvs st
       = (Inl (HTTPException 500 (StoreFailed e)), st')" ..
  from create_version_and_store_failed [OF this]
  have vs: "versions (app_db st') = versions (app_db st) @ [?v]"
    and fs: "fvalues (app_db st') = fvalues (app_db st)"
    by simp_all
  have "fv_feature_version_id fv \<noteq> v_id ?v" if "fv \<in> set (fvalues (app_db st'))" for fv
  proof -
    from that fs integrity
    have "fv_feature_version_id fv \<in> set (map v_id (versions (app_db st)))" by simp
    then have "fv_feature_version_id fv < next_id (map v_id (versions (app_db st)))"
      by (rule next_id_fresh)
    then show ?thesis by simp
  qed
  with vs fs show ?thesis by (intro exI [of _ ?v]) simp
qed

lemma sample_request_frame: "build_frame sample_lib sample_request = Inr indexed_frame"
  by (simp add: build_frame_def sample_lib_def sample_DataFrame_def sample_request_def
      sample_frame_def indexed_frame_def get_column_def set_index_def)

lemma sample_store_fails:
  "compute_feature_version sample_lib 100 2 sample_request sample_state
     = (Inl (HTTPException 500 (StoreFailed (JSONTypeError (PList [PObject ''set''])))),
        sample_state\<lparr>app_db := sample_db
          \<lparr>versions := [\<lparr>v_id = 1, v_feature_id = 2, v_version = ''v1'', v_status = ''active'',
                          v_computed_at = 100, v_metadata = None\<rparr>]\<rparr>\<rparr>)"
proof -
  let ?feature = "\<lparr>f_id = 2, f_name = ''amounts'', f_raw_table_id = 1,
                   f_computation_logic = sets_logic\<rparr>"
  let ?table = "\<lparr>rt_id = 1, rt_name = ''payments'', rt_schema_definition = sample_schema\<rparr>"
  have feature: "find (\<lambda>f. f_id f = 2) (features (app_db sample_state)) = Some ?feature"
    by (simp add: sample_state_def sample_db_def)
  have fresh: "find (\<lambda>v. v_feature_id v = 2 \<and> v_version v = cr_version sample_request)
                 (versions (app_db sample_state)) = None"
    by (simp add: sample_state_def sample_db_def)
  have table: "find (\<lambda>t. rt_id t = f_raw_table_id ?feature) (raw_tables (app_db sample_state))
                 = Some ?table"
    by (simp add: sample_state_def sample_db_def)
  have valid: "validate_raw_data_schema indexed_frame (rt_schema_definition ?table) = Inr True"
    using sample_frame_valid by simp
  have computed: "compute_feature sample_lib indexed_frame (f_computation_logic ?feature)
                    = Inr [(PStr ''x'', PList [PObject ''set'']),
                           (PStr ''x'', PList [PObject ''set''])]"
    by (simp add: compute_feature_def sample_lib_def sample_exec_def sets_logic_def
        sum_logic_def unfinished_logic_def exit_logic_def)
  have stored: "create_version_and_store sample_lib 100 2 sample_request
                  [(PStr ''x'', PList [PObject ''set'']), (PStr ''x'', PList [PObject ''set''])]
                  sample_state
     = (Inl (HTTPException 500 (StoreFailed (JSONTypeError (PList [PObject ''set''])))),
        sample_state\<lparr>app_db := sample_db
          \<lparr>versions := [\<lparr>v_id = 1, v_feature_id = 2, v_version = ''v1'', v_status = ''active'',
                          v_computed_at = 100, v_metadata = None\<rparr>]\<rparr>\<rparr>)"
    by (simp add: create_version_and_store_def Let_def db_commit_def db_add_def db_rollback_def
        store_feature_values_def encode_value_def sample_state_def sample_request_def
        next_id_def sample_lib_def sample_dumps_def json_a1_def)
       (simp add: sample_db_def)
  show ?thesis
    unfolding compute_feature_version_computed
      [OF feature fresh sample_request_frame table valid computed] stored
    by simp
qed

theorem failed_store_leaves_version_witness:
  "compute_feature_version sample_lib 100 2 sample_request sample_state
     = (Inl (HTTPException 500 (StoreFailed (JSONTypeError (PList [PObject ''set''])))),
        sample_state\<lparr>app_db := sample_db
          \<lparr>versions := [\<lparr>v_id = 1, v_feature_id = 2, v_version = ''v1'', v_status = ''active'',
                          v_computed_at = 100, v_metadata = None\<rparr>]\<rparr>\<rparr>)
   \<and> fvalues (app_db (sample_state\<lparr>app_db := sample_db
          \<lparr>versions := [\<lparr>v_id = 1, v_feature_id = 2, v_version = ''v1'', v_status = ''active'',
                          v_computed_at = 100, v_metadata = None\<rparr>]\<rparr>\<rparr>)) = []"
proof -
  have integrity: "\<forall>fv \<in> set (fvalues (app_db sample_state)).
                     fv_feature_version_id fv \<in> v_id ` set (versions (app_db sample_state))"
    by (simp add: sample_state_def sample_db_def)
  have none: "fvalues (app_db sample_state) = []"
    by (simp add: sample_state_def sample_db_def)
  from failed_store_leaves_version [OF sample_store_fails integrity] none
  have "fvalues (app_db (sample_state\<lparr>app_db := sample_db
          \<lparr>versions := [\<lparr>v_id = 1, v_feature_id = 2, v_version = ''v1'', v_status = ''active'',
                          v_computed_at = 100, v_metadata = None\<rparr>]\<rparr>\<rparr>)) = []"
    by auto
  with sample_store_fails show ?thesis by simp
qed

section \<open>Stored values\<close>

lemma add_feature_values_fails:
  assumes "feature_values \<noteq> []"
  shows "\<exists>e. add_feature_values L vid feature_values s = (Some e, s)"
proof -
  from assms obtain entity v rest where fvs: "feature_values = (entity, v) # rest"
    by (cases feature_values) auto
  show ?thesis
    by (cases "encode_value L v") (simp_all add: fvs name_not_bound)
qed

lemma store_feature_values_fails:
  assumes "feature_values \<noteq> []"
  shows "\<exists>e. store_feature_values L now vid feature_values s = (Some e, s)"
  using add_feature_values_fails [OF assms, of L vid s]
  by (auto simp: store_feature_values_def)

lemma store_feature_values_name_error:
  assumes "encode_value L v = Inr text"
  shows "store_feature_values L now vid ((entity, v) # rest) s
           = (Some (NameError ''FeatureValue''), s)"
  using assms by (simp add: store_feature_values_def name_not_bound)

lemma create_version_and_store_values:
  "fvalues (app_db (snd (create_version_and_store L now fid request fvs st)))
     = fvalues (app_db st)"
proof (cases fvs)
  case Nil
  then show ?thesis
    by (simp add: create_version_and_store_def Let_def store_feature_values_def db_commit_def
        db_add_def)
next
  case (Cons p rest)
  let ?s1 = "db_commit now (db_add (NewVersion fid (cr_version request) ''active''
                                      (cr_metadata request))
                              \<lparr>store = app_db st, pending = []\<rparr>)"
  have s1: "fvalues (store ?s1) = fvalues (app_db st)"
    by (simp add: db_commit_def db_add_def)
  from Cons have "fvs \<noteq> []" by simp
  from store_feature_values_fails [OF this]
  obtain e where "store_feature_values L now (v_id (last (versions (store ?s1)))) fvs ?s1
                    = (Some e, ?s1)"
    by blast
  then show ?thesis
    using s1 by (simp add: create_version_and_store_def Let_def db_rollback_def)
qed

lemma compute_feature_version_values:
  "fvalues (app_db (snd (compute_feature_version L now fid request st))) = fvalues (app_db st)"
  by (simp add: compute_feature_version_def validate_and_compute_def
      create_version_and_store_values split: option.splits sum.splits exception.splits)

text \<open>
  C6, on the code. The value of an item is encoded as the claim says, a dict or a list
  through \<open>json.dumps\<close> and anything else through \<open>str\<close>, but the row that is to hold
  the text is never built: \<open>store_feature_values\<close> ends with an exception at the first
  item of every non-empty series, with \<open>NameError\<close> when the value encodes, and leaves the
  session as it was. So no request to \<open>compute_feature_version\<close> ever adds a value to the
  store, and there is no stored value for a later resolve to decode.
\<close>

theorem values_never_stored:
  "fvalues (app_db (snd (compute_feature_version L now fid request st))) = fvalues (app_db st)
   \<and> (feature_values \<noteq> [] \<longrightarrow>
        (\<exists>e. store_feature_values L now vid feature_values s = (Some e, s)))
   \<and> (\<forall>entity v rest text. encode_value L v = Inr text \<longrightarrow>
        store_feature_values L now vid ((entity, v) # rest) s
          = (Some (NameError ''FeatureValue''), s))"
  using compute_feature_version_values [of L now fid request st]
    store_feature_values_fails [of feature_values L now vid s]
    store_feature_values_name_error [of L _ _ now vid _ _ s]
  by blast

lemma scenario_store_fails:
  "compute_feature_version sample_lib 100 1 sample_request sample_state
     = (Inl (HTTPException 500 (StoreFailed (NameError ''FeatureValue''))),
        sample_state\<lparr>app_db := sample_db
          \<lparr>versions := [\<lparr>v_id = 1, v_feature_id = 1, v_version = ''v1'', v_status = ''active'',
                          v_computed_at = 100, v_metadata = None\<rparr>]\<rparr>\<rparr>)"
proof -
  let ?table = "\<lparr>rt_id = 1, rt_name = ''payments'', rt_schema_definition = sample_schema\<rparr>"
  have feature: "find (\<lambda>f. f_id f = 1) (features (app_db sample_state)) = Some total_feature"
    by (simp add: sample_state_def sample_db_def total_feature_def)
  have fresh: "find (\<lambda>v. v_feature_id v = 1 \<and> v_version v = cr_version sample_request)
                 (versions (app_db sample_state)) = None"
    by (simp add: sample_state_def sample_db_def)
  have table: "find (\<lambda>t. rt_id t = f_raw_table_id total_feature)
                 (raw_tables (app_db sample_state)) = Some ?table"
    by (simp add: sample_state_def sample_db_def total_feature_def)
  have valid: "validate_raw_data_schema indexed_frame (rt_schema_definition ?table) = Inr True"
    using sample_frame_valid by simp
  have computed: "compute_feature sample_lib indexed_frame (f_computation_logic total_feature)
                    = Inr [(PStr ''x'', PInt 12)]"
    using sample_sum_computed by (simp add: total_feature_def)
  have stored: "create_version_and_store sample_lib 100 1 sample_request [(PStr ''x'', PInt 12)]
                  sample_state
     = (Inl (HTTPException 500 (StoreFailed (NameError ''FeatureValue''))),
        sample_state\<lparr>app_db := sample_db
          \<lparr>versions := [\<lparr>v_id = 1, v_feature_id = 1, v_version = ''v1'', v_status = ''active'',
                          v_computed_at = 100, v_metadata = None\<rparr>]\<rparr>\<rparr>)"
    by (simp add: create_version_and_store_def Let_def db_commit_def db_add_def db_rollback_def
        store_feature_values_def encode_value_def sample_state_def sample_request_def
        next_id_def name_not_bound)
       (simp add: sample_db_def)
  show ?thesis
    unfolding compute_feature_version_computed
      [OF feature fresh sample_request_frame table valid computed] stored
    by simp
qed

theorem values_never_stored_witness:
  "store_feature_values sample_lib 100 1 [(PStr ''x'', PDict [(PStr ''a'', PInt 1)])]
     \<lparr>store = sample_db, pending = []\<rparr>
     = (Some (NameError ''FeatureValue''), \<lparr>store = sample_db, pending = []\<rparr>)
   \<and> compute_feature_version sample_lib 100 1 sample_request sample_state
     = (Inl (HTTPException 500 (StoreFailed (NameError ''FeatureValue''))),
        sample_state\<lparr>app_db := sample_db
          \<lparr>versions := [\<lparr>v_id = 1, v_feature_id = 1, v_version = ''v1'', v_status = ''active'',
                          v_computed_at = 100, v_metadata = None\<rparr>]\<rparr>\<rparr>)
   \<and> fvalues (app_db (snd (compute_feature_version sample_lib 100 1 sample_request
                             sample_state))) = []
   \<and> fst (get_feature_vector sample_lib 200 (request_for ''x'')
            (snd (compute_feature_version sample_lib 100 1 sample_request sample_state)))
     = Inl (HTTPException 404 (NoFeatureVectors ''x''))"
proof -
  have encoded: "encode_value sample_lib (PDict [(PStr ''a'', PInt 1)]) = Inr json_a1"
    by (simp add: encode_value_def sample_lib_def sample_dumps_def)
  from values_never_stored [THEN conjunct2, THEN conjunct2, rule_format, OF encoded]
  have r1: "store_feature_values sample_lib 100 1 [(PStr ''x'', PDict [(PStr ''a'', PInt 1)])]
              \<lparr>store = sample_db, pending = []\<rparr>
              = (Some (NameError ''FeatureValue''), \<lparr>store = sample_db, pending = []\<rparr>)" .
  have "fvalues (app_db sample_state) = []"
    by (simp add: sample_state_def sample_db_def)
  with values_never_stored [THEN conjunct1, of sample_lib 100 1 sample_request sample_state]
  have r3: "fvalues (app_db (snd (compute_feature_version sample_lib 100 1 sample_request
                                    sample_state))) = []"
    by simp
  have r4: "fst (get_feature_vector sample_lib 200 (request_for ''x'')
                   (snd (compute_feature_version sample_lib 100 1 sample_request sample_state)))
              = Inl (HTTPException 404 (NoFeatureVectors ''x''))"
    unfolding scenario_store_fails
    by (simp add: get_feature_vector_def cache_get_def ttl_get_def sample_state_def
        resolve_results_def request_for_def named_features_def sample_db_def
        latest_active_version_def value_for_def Let_def)
  from r1 scenario_store_fails r3 r4 show ?thesis by simp
qed

section \<open>The computation sandbox\<close>

lemma compute_feature_success_iff:
  "compute_feature L raw_data logic = Inr s \<longleftrightarrow>
     exec_logic L logic raw_data = Completed (Some (Series s))
     \<or> (\<exists>d c. exec_logic L logic raw_data = Completed (Some (DataFrame d))
              \<and> df_columns d = [c] \<and> s = zip (df_index d) (col_cells c))"
  by (auto simp: compute_feature_def
      split: exec_outcome.splits option.splits py_object.splits list.splits)

lemma compute_feature_caught:
  assumes "\<forall>name. exec_logic L logic raw_data \<noteq> RaisedBaseException name"
  shows "(\<exists>s. compute_feature L raw_data logic = Inr s)
         \<or> (\<exists>e. compute_feature L raw_data logic = Inl (ComputationError e))"
  using assms
  by (auto simp: compute_feature_def
      split: exec_outcome.splits option.splits py_object.splits list.splits)

text \<open>
  C3, on the code. \<open>compute_feature\<close> succeeds exactly when executing the logic leaves
  \<open>result\<close> bound to a series, which is returned as it is, or to a table of one column,
  which is returned as that column. When \<open>result\<close> is absent, is a table of another
  width or is any other object, or when the execution raises an exception that is an
  instance of \<open>Exception\<close>, the outcome is the one \<open>ComputationError\<close>. An exception
  that is not an instance of \<open>Exception\<close> is not caught and leaves \<open>compute_feature\<close>
  as it was raised: the environment that line 29 calls safe empties the builtins and hands
  the logic \<open>pd\<close>, from which \<open>sys.exit\<close> is reachable.
\<close>

theorem compute_feature_outcomes:
  "(compute_feature L raw_data logic = Inr s \<longleftrightarrow>
      exec_logic L logic raw_data = Completed (Some (Series s))
      \<or> (\<exists>d c. exec_logic L logic raw_data = Completed (Some (DataFrame d))
               \<and> df_columns d = [c] \<and> s = zip (df_index d) (col_cells c)))
   \<and> (exec_logic L logic raw_data = Completed None \<longrightarrow>
        compute_feature L raw_data logic = Inl (ComputationError ResultNotAssigned))
   \<and> (\<forall>d. exec_logic L logic raw_data = Completed (Some (DataFrame d)) \<and> length (df_columns d) \<noteq> 1
         \<longrightarrow> compute_feature L raw_data logic = Inl (ComputationError NotSingleColumn))
   \<and> (\<forall>v. exec_logic L logic raw_data = Completed (Some (OtherObject v))
         \<longrightarrow> compute_feature L raw_data logic = Inl (ComputationError NotSeriesOrDataFrame))
   \<and> (\<forall>msg. exec_logic L logic raw_data = RaisedException msg
         \<longrightarrow> compute_feature L raw_data logic = Inl (ComputationError (LogicRaised msg)))
   \<and> (\<forall>name. exec_logic L logic raw_data = RaisedBaseException name
         \<longrightarrow> compute_feature L raw_data logic = Inl (NotAnException name))
   \<and> ((\<forall>name. exec_logic L logic raw_data \<noteq> RaisedBaseException name) \<longrightarrow>
        (\<exists>s. compute_feature L raw_data logic = Inr s)
        \<or> (\<exists>e. compute_feature L raw_data logic = Inl (ComputationError e)))"
proof (intro conjI allI impI)
  show "compute_feature L raw_data logic = Inr s \<longleftrightarrow>
      exec_logic L logic raw_data = Completed (Some (Series s))
      \<or> (\<exists>d c. exec_logic L logic raw_data = Completed (Some (DataFrame d))
               \<and> df_columns d = [c] \<and> s = zip (df_index d) (col_cells c))"
    by (rule compute_feature_success_iff)
next
  assume "exec_logic L logic raw_data = Completed None"
  then show "compute_feature L raw_data logic = Inl (ComputationError ResultNotAssigned)"
    by (simp add: compute_feature_def)
next
  fix d
  assume "exec_logic L logic raw_data = Completed (Some (DataFrame d)) \<and> length (df_columns d) \<noteq> 1"
  then show "compute_feature L raw_data logic = Inl (ComputationError NotSingleColumn)"
    by (auto simp: compute_feature_def split: list.splits)
next
  fix v
  assume "exec_logic L logic raw_data = Completed (Some (OtherObject v))"
  then show "compute_feature L raw_data logic = Inl (ComputationError NotSeriesOrDataFrame)"
    by (simp add: compute_feature_def)
next
  fix msg
  assume "exec_logic L logic raw_data = RaisedException msg"
  then show "compute_feature L raw_data logic = Inl (ComputationError (LogicRaised msg))"
    by (simp add: compute_feature_def)
next
  fix name
  assume "exec_logic L logic raw_data = RaisedBaseException name"
  then show "compute_feature L raw_data logic = Inl (NotAnException name)"
    by (simp add: compute_feature_def)
next
  assume "\<forall>name. exec_logic L logic raw_data \<noteq> RaisedBaseException name"
  then show "(\<exists>s. compute_feature L raw_data logic = Inr s)
        \<or> (\<exists>e. compute_feature L raw_data logic = Inl (ComputationError e))"
    by (rule compute_feature_caught)
qed

lemma sample_exec_exit: "exec_logic sample_lib exit_logic df = RaisedBaseException ''SystemExit''"
  by (simp add: sample_lib_def sample_exec_def exit_logic_def unfinished_logic_def)

lemma compute_feature_version_escapes:
  assumes feature: "find (\<lambda>f. f_id f = fid) (features (app_db st)) = Some feature"
    and fresh: "find (\<lambda>v. v_feature_id v = fid \<and> v_version v = cr_version request)
                  (versions (app_db st)) = None"
    and frame: "build_frame L request = Inr df"
    and table: "find (\<lambda>t. rt_id t = f_raw_table_id feature) (raw_tables (app_db st))
                  = Some raw_table"
    and valid: "validate_raw_data_schema df (rt_schema_definition raw_table) = Inr ok"
    and escaped: "compute_feature L df (f_computation_logic feature) = Inl (NotAnException name)"
  shows "compute_feature_version L now fid request st
           = (Inl (Unhandled (NotAnException name)), st)"
  using assms by (simp add: compute_feature_version_def validate_and_compute_def)

theorem compute_feature_outcomes_witness:
  "compute_feature sample_lib indexed_frame sum_logic = Inr [(PStr ''x'', PInt 12)]
   \<and> compute_feature sample_lib indexed_frame no_result_logic
       = Inl (ComputationError ResultNotAssigned)
   \<and> compute_feature sample_lib indexed_frame unfinished_logic
       = Inl (ComputationError (LogicRaised syntax_error))
   \<and> compute_feature sample_lib indexed_frame exit_logic = Inl (NotAnException ''SystemExit'')
   \<and> compute_feature_version sample_lib 100 3 sample_request sample_state
       = (Inl (Unhandled (NotAnException ''SystemExit'')), sample_state)"
proof -
  have e1: "exec_logic sample_lib sum_logic indexed_frame
              = Completed (Some (Series [(PStr ''x'', PInt 12)]))"
    by (simp add: sample_lib_def sample_exec_def no_result_logic_def exit_logic_def
        sum_logic_def sets_logic_def unfinished_logic_def)
  have e2: "exec_logic sample_lib no_result_logic indexed_frame = Completed None"
    by (simp add: sample_lib_def sample_exec_def no_result_logic_def exit_logic_def
        sum_logic_def sets_logic_def unfinished_logic_def)
  have e3: "exec_logic sample_lib unfinished_logic indexed_frame = RaisedException syntax_error"
    by (simp add: sample_lib_def sample_exec_def)
  have e4: "exec_logic sample_lib exit_logic indexed_frame = RaisedBaseException ''SystemExit''"
    by (rule sample_exec_exit)
  from compute_feature_outcomes [of sample_lib indexed_frame sum_logic "[(PStr ''x'', PInt 12)]"] e1
  have r1: "compute_feature sample_lib indexed_frame sum_logic = Inr [(PStr ''x'', PInt 12)]"
    by blast
  from compute_feature_outcomes [of sample_lib indexed_frame no_result_logic "[]"] e2
  have r2: "compute_feature sample_lib indexed_frame no_result_logic
              = Inl (ComputationError ResultNotAssigned)"
    by blast
  from compute_feature_outcomes [of sample_lib indexed_frame unfinished_logic "[]"] e3
  have r3: "compute_feature sample_lib indexed_frame unfinished_logic
              = Inl (ComputationError (LogicRaised syntax_error))"
    by blast
  from compute_feature_outcomes [of sample_lib indexed_frame exit_logic "[]"] e4
  have r4: "compute_feature sample_lib indexed_frame exit_logic
              = Inl (NotAnException ''SystemExit'')"
    by blast
  let ?feature = "\<lparr>f_id = 3, f_name = ''stop'', f_raw_table_id = 1,
                   f_computation_logic = exit_logic\<rparr>"
  let ?table = "\<lparr>rt_id = 1, rt_name = ''payments'', rt_schema_definition = sample_schema\<rparr>"
  have feature: "find (\<lambda>f. f_id f = 3) (features (app_db sample_state)) = Some ?feature"
    by (simp add: sample_state_def sample_db_def)
  have fresh: "find (\<lambda>v. v_feature_id v = 3 \<and> v_version v = cr_version sample_request)
                 (versions (app_db sample_state)) = None"
    by (simp add: sample_state_def sample_db_def)
  have table: "find (\<lambda>t. rt_id t = f_raw_table_id ?feature) (raw_tables (app_db sample_state))
                 = Some ?table"
    by (simp add: sample_state_def sample_db_def)
  have valid: "validate_raw_data_schema indexed_frame (rt_schema_definition ?table) = Inr True"
    using sample_frame_valid by simp
  have escaped: "compute_feature sample_lib indexed_frame (f_computation_logic ?feature)
                   = Inl (NotAnException ''SystemExit'')"
    using r4 by simp
  have r5: "compute_feature_version sample_lib 100 3 sample_request sample_state
              = (Inl (Unhandled (NotAnException ''SystemExit'')), sample_state)"
    by (rule compute_feature_version_escapes
          [OF feature fresh sample_request_frame table valid escaped])
  from r1 r2 r3 r4 r5 show ?thesis by simp
qed

end
